theory Spec2Isabelle
  imports Main
begin

section \<open>GroundPolylinePrimitive: decomposition into wall segments and attribute synchronisation\<close>

text \<open>
  A shallow embedding of \<^verbatim>\<open>Source/Scene/GroundPolylinePrimitive.js\<close>: the function
  \<^verbatim>\<open>decompose\<close>, the decomposition pass of \<^verbatim>\<open>update\<close>, the attribute codec
  \<^verbatim>\<open>getAttributeValue\<close>, the accessors built by \<^verbatim>\<open>createSetFunction\<close> and
  \<^verbatim>\<open>createGetFunction\<close>, and \<^verbatim>\<open>getGeometryInstanceAttributes\<close>.

  JavaScript numbers are kept abstract: the attribute path only moves components around,
  so its number type is a type variable with a zero (a fresh typed array is zero-filled);
  the decomposition loop adds segment lengths, so its number type is a type variable with
  \<open>0\<close> and \<open>+\<close>, and its theorems hold for whatever addition the numbers have.

  The module is in strict mode and its \<^verbatim>\<open>define\<close> list binds neither
  \<^verbatim>\<open>Cartesian2\<close>, \<^verbatim>\<open>Cartesian3\<close>, \<^verbatim>\<open>Cartesian4\<close>, the scratch vectors
  \<^verbatim>\<open>scratchGetAttributeCartesian2/3/4\<close> nor \<^verbatim>\<open>DeveloperError\<close>. As the module is
  written, evaluating one of these names throws a \<^verbatim>\<open>ReferenceError\<close>, and the model
  does the same; the identifiers the module does bind (\<^verbatim>\<open>defined\<close>,
  \<^verbatim>\<open>ComponentDatatype\<close>, \<^verbatim>\<open>GroundLineGeometry\<close>, ...) are read as the Core modules
  of those names.
\<close>

subsection \<open>Values and errors\<close>

text \<open>
  What a batch-table slot can hold: a bare number, a \<^verbatim>\<open>Cartesian2\<close>,
  \<^verbatim>\<open>Cartesian3\<close> or \<^verbatim>\<open>Cartesian4\<close> (the batch table of the inner primitive makes
  these itself), or JavaScript's \<^verbatim>\<open>undefined\<close> (also the value of a function that
  falls off its end).
\<close>

datatype 'a jsvalue =
    Undefined
  | Number 'a
  | Cartesian2 'a 'a
  | Cartesian3 'a 'a 'a
  | Cartesian4 'a 'a 'a 'a

text \<open>
  The argument handed to a setter: \<^verbatim>\<open>undefined\<close>, something without a
  \<^verbatim>\<open>length\<close> property (a bare number, say), or an array of components.
\<close>

datatype 'a argument =
    NotDefined
  | NoLength
  | Components "'a list"

text \<open>
  What a call can throw: a \<^verbatim>\<open>TypeError\<close> (a property read of \<^verbatim>\<open>undefined\<close>), or
  a \<^verbatim>\<open>ReferenceError\<close> for an identifier the module does not bind, with that
  identifier's name.
\<close>

datatype error =
    TypeError
  | ReferenceError string

subsection \<open>The attribute codec\<close>

text \<open>
  \<^verbatim>\<open>getAttributeValue(value)\<close>: an \<^verbatim>\<open>if\<close> chain on \<^verbatim>\<open>value.length\<close> with no final
  \<^verbatim>\<open>else\<close>. The branches for 2, 3 and 4 components are
  \<^verbatim>\<open>return CartesianN.unpack(value, 0, scratchGetAttributeCartesianN)\<close>; evaluating the
  unbound \<^verbatim>\<open>CartesianN\<close> throws before anything is unpacked.
\<close>

definition getAttributeValue :: "'a list \<Rightarrow> error + 'a jsvalue" where
  "getAttributeValue v =
     (let componentsPerAttribute = length v in
      if componentsPerAttribute = 1 then Inr (Number (v ! 0))
      else if componentsPerAttribute = 2 then Inl (ReferenceError ''Cartesian2'')
      else if componentsPerAttribute = 3 then Inl (ReferenceError ''Cartesian3'')
      else if componentsPerAttribute = 4 then Inl (ReferenceError ''Cartesian4'')
      else Inr Undefined)"

subsection \<open>The batch table\<close>

datatype ComponentDatatype =
    BYTE
  | UNSIGNED_BYTE
  | SHORT
  | UNSIGNED_SHORT
  | INT
  | UNSIGNED_INT
  | FLOAT
  | DOUBLE

record BatchTableAttribute =
  componentDatatype :: ComponentDatatype
  componentsPerAttribute :: nat

text \<open>
  Modelled from the spec: the batch table (\<^verbatim>\<open>Scene/BatchTable\<close>) is not part of the
  sources. The spec describes it as a flat store with one slot per (segment index,
  attribute index) and attribute definitions fixed when the batch is built. A write
  stores the value in the slot it names and touches no other slot.
\<close>

record 'a BatchTable =
  attributes :: "BatchTableAttribute list"
  batchValues :: "int \<times> nat \<Rightarrow> 'a jsvalue"

definition getBatchedAttribute :: "'a BatchTable \<Rightarrow> int \<Rightarrow> nat \<Rightarrow> 'a jsvalue" where
  "getBatchedAttribute batchTable instanceIndex attributeIndex =
     batchValues batchTable (instanceIndex, attributeIndex)"

definition setBatchedAttribute ::
  "'a BatchTable \<Rightarrow> int \<Rightarrow> nat \<Rightarrow> 'a jsvalue \<Rightarrow> 'a BatchTable" where
  "setBatchedAttribute batchTable instanceIndex attributeIndex v =
     batchTable\<lparr>batchValues := (batchValues batchTable)((instanceIndex, attributeIndex) := v)\<rparr>"

subsection \<open>Setter and getter\<close>

text \<open>
  The setter's loop
  \<^verbatim>\<open>for (var i = firstInstanceIndex; i <= lastInstanceIndex; i++)\<close>, entered at \<open>i\<close>.
  Each round calls \<^verbatim>\<open>getAttributeValue(value)\<close> and then writes the slot; when the call
  throws, the loop is left with the batch table as the rounds before it made it. The
  result is what was thrown (\<open>None\<close> when the loop ran to its end) and the batch table.
\<close>

function setLoop ::
  "'a BatchTable \<Rightarrow> int \<Rightarrow> int \<Rightarrow> nat \<Rightarrow> 'a list \<Rightarrow> error option \<times> 'a BatchTable" where
  "setLoop batchTable i lastInstanceIndex attributeIndex v =
     (if i \<le> lastInstanceIndex then
        (case getAttributeValue v of
           Inl e \<Rightarrow> (Some e, batchTable)
         | Inr attributeValue \<Rightarrow>
             setLoop (setBatchedAttribute batchTable i attributeIndex attributeValue)
               (i + 1) lastInstanceIndex attributeIndex v)
      else (None, batchTable))"
  by pat_completeness auto
termination
  by (relation "measure (\<lambda>(batchTable, i, lastInstanceIndex, attributeIndex, v).
        nat (lastInstanceIndex + 1 - i))") auto

text \<open>
  \<^verbatim>\<open>createSetFunction(batchTable, firstInstanceIndex, lastInstanceIndex, attributeIndex)\<close>
  returns the setter; the setter applied to a value either throws (the first component
  of the result) or completes, and the second component is the batch table it leaves
  behind. The check is the one between the \<^verbatim>\<open>includeStart('debug')\<close> pragmas, as
  written in the source; its \<^verbatim>\<open>throw new DeveloperError(...)\<close> evaluates the unbound
  \<^verbatim>\<open>DeveloperError\<close>, so what is thrown is a \<^verbatim>\<open>ReferenceError\<close>.
\<close>

definition createSetFunction ::
  "int \<Rightarrow> int \<Rightarrow> nat \<Rightarrow> 'a BatchTable \<Rightarrow> 'a argument \<Rightarrow> error option \<times> 'a BatchTable" where
  "createSetFunction firstInstanceIndex lastInstanceIndex attributeIndex batchTable value_arg =
     (case value_arg of
        NotDefined \<Rightarrow> (Some (ReferenceError ''DeveloperError''), batchTable)
      | NoLength \<Rightarrow> (Some (ReferenceError ''DeveloperError''), batchTable)
      | Components v \<Rightarrow>
          if length v < 1 \<or> length v > 4 then (Some (ReferenceError ''DeveloperError''), batchTable)
          else setLoop batchTable firstInstanceIndex lastInstanceIndex attributeIndex v)"

text \<open>
  \<^verbatim>\<open>ComponentDatatype.createTypedArray\<close> is not part of the sources. A typed array is a
  zero-filled list of fixed length; a write converts the number to the array's component
  datatype (the parameter \<open>conv\<close>: what a typed array of that datatype keeps of a number)
  and a write past the end is ignored.
\<close>

definition createTypedArray :: "ComponentDatatype \<Rightarrow> nat \<Rightarrow> ('a::zero) list" where
  "createTypedArray dt n = replicate n 0"

definition typedArrayWrite ::
  "(ComponentDatatype \<Rightarrow> 'a \<Rightarrow> 'a) \<Rightarrow> ComponentDatatype \<Rightarrow> 'a list \<Rightarrow> nat \<Rightarrow> 'a \<Rightarrow> 'a list" where
  "typedArrayWrite conv dt arr i x = (if i < length arr then arr[i := conv dt x] else arr)"

text \<open>
  The pack step of the getter: \<^verbatim>\<open>attributeValue.constructor.pack\<close> exists for the
  Cartesian types and writes the components from index 0; a bare number goes to slot 0;
  \<^verbatim>\<open>undefined\<close> has no \<^verbatim>\<open>constructor\<close>, so reading it throws a TypeError.
\<close>

definition packAttributeValue ::
  "(ComponentDatatype \<Rightarrow> 'a \<Rightarrow> 'a) \<Rightarrow> BatchTableAttribute \<Rightarrow> ('a::zero) jsvalue \<Rightarrow> error + 'a list" where
  "packAttributeValue conv attribute attributeValue =
     (let dt = componentDatatype attribute;
          w = typedArrayWrite conv dt;
          value_arr = createTypedArray dt (componentsPerAttribute attribute)
      in case attributeValue of
           Undefined \<Rightarrow> Inl TypeError
         | Number x \<Rightarrow> Inr (w value_arr 0 x)
         | Cartesian2 x y \<Rightarrow> Inr (w (w value_arr 0 x) 1 y)
         | Cartesian3 x y z \<Rightarrow> Inr (w (w (w value_arr 0 x) 1 y) 2 z)
         | Cartesian4 x y z t \<Rightarrow> Inr (w (w (w (w value_arr 0 x) 1 y) 2 z) 3 t))"

text \<open>
  \<^verbatim>\<open>createGetFunction(batchTable, instanceIndex, attributeIndex)\<close>:
  \<^verbatim>\<open>batchTable.attributes[attributeIndex]\<close> is \<^verbatim>\<open>undefined\<close> past the end of the array,
  and reading \<^verbatim>\<open>componentsPerAttribute\<close> of it throws a TypeError.
\<close>

definition createGetFunction ::
  "(ComponentDatatype \<Rightarrow> 'a \<Rightarrow> 'a) \<Rightarrow> int \<Rightarrow> nat \<Rightarrow> ('a::zero) BatchTable \<Rightarrow> error + 'a list" where
  "createGetFunction conv instanceIndex attributeIndex batchTable =
     (let attributeValue = getBatchedAttribute batchTable instanceIndex attributeIndex in
      if attributeIndex < length (attributes batchTable) then
        packAttributeValue conv (attributes batchTable ! attributeIndex) attributeValue
      else Inl TypeError)"

subsection \<open>The synchronizer\<close>

text \<open>
  An accessor pair as \<^verbatim>\<open>InstanceAttributeSynchronizer\<close> defines it for one attribute
  name: the getter and the setter, both closed over the instance range and the attribute
  index. The batch table is the one shared mutable object, so it is passed to the
  accessor at each call.
\<close>

type_synonym 'a accessors =
  "('a BatchTable \<Rightarrow> error + 'a list) \<times> ('a BatchTable \<Rightarrow> 'a argument \<Rightarrow> error option \<times> 'a BatchTable)"

definition InstanceAttributeSynchronizer ::
  "(ComponentDatatype \<Rightarrow> 'a \<Rightarrow> 'a) \<Rightarrow> int \<Rightarrow> int \<Rightarrow> (string \<rightharpoonup> nat) \<Rightarrow> (string \<rightharpoonup> ('a::zero) accessors)" where
  "InstanceAttributeSynchronizer conv firstInstanceIndex lastInstanceIndex batchTableAttributeIndices =
     (\<lambda>name. case batchTableAttributeIndices name of
        None \<Rightarrow> None
      | Some attributeIndex \<Rightarrow>
          Some (createGetFunction conv firstInstanceIndex attributeIndex,
                createSetFunction firstInstanceIndex lastInstanceIndex attributeIndex))"

subsection \<open>Geometry\<close>

text \<open>
  \<^verbatim>\<open>GroundPolylineGeometry\<close>, \<^verbatim>\<open>GroundLineGeometry\<close>, \<^verbatim>\<open>GeometryInstance\<close> and
  \<^verbatim>\<open>GeometryInstanceAttribute\<close> are Core modules outside the sources. The records keep
  the fields \<^verbatim>\<open>decompose\<close> reads or writes; \<open>positions\<close> stands for the path that
  only \<^verbatim>\<open>createWallVertices\<close> looks at.
\<close>

record ('p, 'n) GroundPolylineGeometry =
  positions :: "'p list"
  width :: 'n
  lengthOnEllipsoid :: 'n

record 'n WallVertices =
  rightFacingNormals :: "'n list"
  bottomPositions :: "'n list"
  topPositions :: "'n list"

record 'n GroundLineGeometry =
  segmentBottomLength :: 'n

record 'n GeometryInstanceAttribute = BatchTableAttribute +
  normalize :: bool
  value' :: "'n list"

text \<open>
  Modelled from the spec: \<^verbatim>\<open>GroundLineGeometry.getAttributes\<close> is not part of the
  sources. By the spec each segment carries its start distance along the line, its own
  length and the total line length; these are the three arguments of the call. The
  \<open>width'\<close> attribute is the one \<^verbatim>\<open>decompose\<close> adds afterwards.
\<close>

record 'n SegmentAttributes =
  startDistance :: 'n
  thisSegmentLength :: 'n
  totalLineLength :: 'n
  width' :: "'n GeometryInstanceAttribute option"

definition getAttributes :: "'n GroundLineGeometry \<Rightarrow> 'n \<Rightarrow> 'n \<Rightarrow> 'n \<Rightarrow> 'n SegmentAttributes" where
  "getAttributes geometry lengthSoFar segmentLength totalLength =
     \<lparr>startDistance = lengthSoFar, thisSegmentLength = segmentLength,
      totalLineLength = totalLength, width' = None\<rparr>"

text \<open>
  A \<^verbatim>\<open>GeometryInstance\<close>. The \<^verbatim>\<open>id\<close> is only ever used as a property key of
  \<^verbatim>\<open>_idsToInstanceIndices\<close> and of the synchronizer cache, so it is the key string.
\<close>

record ('g, 'at) GeometryInstance =
  geometry :: 'g
  attributes' :: 'at
  id' :: string

type_synonym 'n SegmentInstance = "('n GroundLineGeometry, 'n SegmentAttributes) GeometryInstance"

subsection \<open>Decomposition\<close>

text \<open>
  The loop of \<^verbatim>\<open>decompose\<close>,
  \<^verbatim>\<open>for (var i = 0; i < verticesLength - 3; i += 3)\<close>, entered at \<open>i\<close> with the
  running \<open>lengthSoFar\<close> and the output array so far. \<^verbatim>\<open>verticesLength - 3\<close> is
  negative for fewer than three entries, hence the comparison over \<open>int\<close>.
  \<^verbatim>\<open>GroundLineGeometry.fromArrays\<close> is outside the sources and is the parameter
  \<open>fromArrays\<close>.
\<close>

function decomposeLoop ::
  "(nat \<Rightarrow> 'n list \<Rightarrow> 'n list \<Rightarrow> 'n list \<Rightarrow> 'n GroundLineGeometry) \<Rightarrow>
   'n WallVertices \<Rightarrow> 'n \<Rightarrow> 'n \<Rightarrow> string \<Rightarrow> nat \<Rightarrow> ('n::{zero,plus}) \<Rightarrow>
   'n SegmentInstance list \<Rightarrow> 'n SegmentInstance list" where
  "decomposeLoop fromArrays wallVertices totalLength lineWidth commonId i lengthSoFar
       polylineSegmentInstances =
     (let verticesLength = length (rightFacingNormals wallVertices) in
      if int i < int verticesLength - 3 then
        let groundPolylineSegmentGeometry =
              fromArrays i (rightFacingNormals wallVertices) (bottomPositions wallVertices)
                (topPositions wallVertices);
            segmentLength = segmentBottomLength groundPolylineSegmentGeometry;
            attrs = (getAttributes groundPolylineSegmentGeometry lengthSoFar segmentLength totalLength)
                      \<lparr>width' := Some \<lparr>componentDatatype = UNSIGNED_BYTE, componentsPerAttribute = 1,
                                        normalize = False, value' = [lineWidth]\<rparr>\<rparr>
        in decomposeLoop fromArrays wallVertices totalLength lineWidth commonId (i + 3)
             (lengthSoFar + segmentLength)
             (polylineSegmentInstances @
                [\<lparr>geometry = groundPolylineSegmentGeometry, attributes' = attrs, id' = commonId\<rparr>])
      else polylineSegmentInstances)"
  by pat_completeness auto
termination
  by (relation "measure (\<lambda>(fromArrays, wallVertices, totalLength, lineWidth, commonId, i,
        lengthSoFar, polylineSegmentInstances). length (rightFacingNormals wallVertices) - i)") auto

text \<open>
  \<^verbatim>\<open>decompose(geometryInstance, polylineSegmentInstances, idsToInstanceIndices)\<close>
  mutates its last two arguments; the model returns both. \<^verbatim>\<open>createWallVertices\<close> and
  \<^verbatim>\<open>GroundPrimitive._defaultMaxTerrainHeight\<close> are outside the sources and are
  parameters. The last line stores the pair unconditionally;
  \<^verbatim>\<open>polylineSegmentInstances.length - 1\<close> is \<open>-1\<close> on an empty array.
\<close>

definition decompose ::
  "(('p, 'n) GroundPolylineGeometry \<Rightarrow> 'h \<Rightarrow> 'n WallVertices) \<Rightarrow>
   (nat \<Rightarrow> 'n list \<Rightarrow> 'n list \<Rightarrow> 'n list \<Rightarrow> 'n GroundLineGeometry) \<Rightarrow> 'h \<Rightarrow>
   (('p, 'n) GroundPolylineGeometry, 'at) GeometryInstance \<Rightarrow>
   ('n::{zero,plus}) SegmentInstance list \<Rightarrow> (string \<rightharpoonup> int \<times> int) \<Rightarrow>
   'n SegmentInstance list \<times> (string \<rightharpoonup> int \<times> int)" where
  "decompose createWallVertices fromArrays defaultMaxTerrainHeight geometryInstance
       polylineSegmentInstances idsToInstanceIndices =
     (let groundPolylineGeometry = geometry geometryInstance;
          commonId = id' geometryInstance;
          wallVertices = createWallVertices groundPolylineGeometry defaultMaxTerrainHeight;
          totalLength = lengthOnEllipsoid groundPolylineGeometry;
          segmentIndicesStart = length polylineSegmentInstances;
          segments = decomposeLoop fromArrays wallVertices totalLength
                       (width groundPolylineGeometry) commonId 0 0 polylineSegmentInstances
      in (segments,
          idsToInstanceIndices(commonId \<mapsto> (int segmentIndicesStart, int (length segments) - 1))))"

text \<open>
  The loop of \<^verbatim>\<open>update\<close> over \<^verbatim>\<open>geometryInstances\<close>: one \<^verbatim>\<open>decompose\<close> per
  instance, in order, all on the same output array and the same index. There is no
  validation and no \<^verbatim>\<open>try\<close> around the call.
\<close>

fun updateLoop ::
  "(('p, 'n) GroundPolylineGeometry \<Rightarrow> 'h \<Rightarrow> 'n WallVertices) \<Rightarrow>
   (nat \<Rightarrow> 'n list \<Rightarrow> 'n list \<Rightarrow> 'n list \<Rightarrow> 'n GroundLineGeometry) \<Rightarrow> 'h \<Rightarrow>
   (('p, 'n) GroundPolylineGeometry, 'at) GeometryInstance list \<Rightarrow>
   ('n::{zero,plus}) SegmentInstance list \<Rightarrow> (string \<rightharpoonup> int \<times> int) \<Rightarrow>
   'n SegmentInstance list \<times> (string \<rightharpoonup> int \<times> int)" where
  "updateLoop createWallVertices fromArrays defaultMaxTerrainHeight [] polylineSegmentInstances
       idsToInstanceIndices = (polylineSegmentInstances, idsToInstanceIndices)"
| "updateLoop createWallVertices fromArrays defaultMaxTerrainHeight (geometryInstance # rest)
       polylineSegmentInstances idsToInstanceIndices =
     (case decompose createWallVertices fromArrays defaultMaxTerrainHeight geometryInstance
             polylineSegmentInstances idsToInstanceIndices of
        (segments, indices) \<Rightarrow>
          updateLoop createWallVertices fromArrays defaultMaxTerrainHeight rest segments indices)"

subsection \<open>The primitive\<close>

text \<open>
  \<^verbatim>\<open>options.polylineGeometryInstances\<close> is one instance or an array of them
  (\<^verbatim>\<open>isArray\<close> decides).
\<close>

datatype 'i instances = Single 'i | Array "'i list"

definition geometryInstancesOf :: "'i instances \<Rightarrow> 'i list" where
  "geometryInstancesOf x = (case x of Array xs \<Rightarrow> xs | Single i \<Rightarrow> [i])"

text \<open>
  The inner \<^verbatim>\<open>Primitive\<close> is outside the sources; of it the code reads
  \<^verbatim>\<open>_batchTable\<close> and \<^verbatim>\<open>_batchTableAttributeIndices\<close>. The private fields of the
  \<^verbatim>\<open>GroundPolylinePrimitive\<close> carry the suffix \<open>_p\<close> in place of the leading underscore.
  \<^verbatim>\<open>_idsToInstanceIndices\<close> and \<^verbatim>\<open>_attributeSynchronizerCache\<close> are plain objects
  used as dictionaries; the keys a plain object inherits from \<^verbatim>\<open>Object.prototype\<close>
  (\<^verbatim>\<open>toString\<close>, \<^verbatim>\<open>constructor\<close>, ...) are not modelled, so ids are taken to be
  other strings than those.
\<close>

record 'a Primitive =
  batchTable_p :: "'a BatchTable option"
  batchTableAttributeIndices_p :: "string \<rightharpoonup> nat"

record ('a, 'i) GroundPolylinePrimitive =
  polylineGeometryInstances :: "'i instances option"
  primitive_p :: "'a Primitive option"
  idsToInstanceIndices_p :: "string \<rightharpoonup> int \<times> int"
  attributeSynchronizerCache_p :: "string \<rightharpoonup> (string \<rightharpoonup> 'a accessors)"

text \<open>
  The constructor, as far as the fields above go: the given instances, no inner
  primitive yet, an empty index and an empty synchronizer cache.
\<close>

definition newGroundPolylinePrimitive :: "'i instances option \<Rightarrow> ('a, 'i) GroundPolylinePrimitive" where
  "newGroundPolylinePrimitive given =
     \<lparr>polylineGeometryInstances = given, primitive_p = None,
      idsToInstanceIndices_p = Map.empty, attributeSynchronizerCache_p = Map.empty\<rparr>"

text \<open>
  \<^verbatim>\<open>GroundPolylinePrimitive.prototype.update\<close>, the part that decomposes. The
  parameter \<open>newPrimitive\<close> stands for \<^verbatim>\<open>new Primitive(primitiveOptions)\<close> on the
  flattened segments and \<open>primitiveUpdate\<close> for \<^verbatim>\<open>this._primitive.update(frameState)\<close>;
  the ready promise is asynchronous and not modelled.
\<close>

definition update ::
  "(('p, 'n) GroundPolylineGeometry \<Rightarrow> 'h \<Rightarrow> 'n WallVertices) \<Rightarrow>
   (nat \<Rightarrow> 'n list \<Rightarrow> 'n list \<Rightarrow> 'n list \<Rightarrow> 'n GroundLineGeometry) \<Rightarrow> 'h \<Rightarrow>
   (('n::{zero,plus}) SegmentInstance list \<Rightarrow> 'a Primitive) \<Rightarrow> ('a Primitive \<Rightarrow> 'a Primitive) \<Rightarrow>
   ('a, (('p, 'n) GroundPolylineGeometry, 'at) GeometryInstance) GroundPolylinePrimitive \<Rightarrow>
   ('a, (('p, 'n) GroundPolylineGeometry, 'at) GeometryInstance) GroundPolylinePrimitive" where
  "update createWallVertices fromArrays defaultMaxTerrainHeight newPrimitive primitiveUpdate this =
     (case primitive_p this of
        Some p \<Rightarrow> this\<lparr>primitive_p := Some (primitiveUpdate p)\<rparr>
      | None \<Rightarrow>
          (case polylineGeometryInstances this of
             None \<Rightarrow> this
           | Some given \<Rightarrow>
               (case updateLoop createWallVertices fromArrays defaultMaxTerrainHeight
                       (geometryInstancesOf given) [] (idsToInstanceIndices_p this) of
                  (polylineSegmentInstances, indices) \<Rightarrow>
                    this\<lparr>idsToInstanceIndices_p := indices,
                         primitive_p := Some (primitiveUpdate (newPrimitive polylineSegmentInstances))\<rparr>)))"

text \<open>
  \<^verbatim>\<open>getGeometryInstanceAttributes(id)\<close>: the two usage checks, the lookup that returns
  \<^verbatim>\<open>undefined\<close> for an id without an entry, and the cache. The result is the returned
  synchronizer (\<open>None\<close> for \<^verbatim>\<open>undefined\<close>) and the primitive with its cache updated.
  Both usage checks end in \<^verbatim>\<open>throw new DeveloperError(...)\<close>, which throws a
  \<^verbatim>\<open>ReferenceError\<close> for the unbound \<^verbatim>\<open>DeveloperError\<close>.
\<close>

definition getGeometryInstanceAttributes ::
  "(ComponentDatatype \<Rightarrow> 'a \<Rightarrow> 'a) \<Rightarrow> (('a::zero), 'i) GroundPolylinePrimitive \<Rightarrow> string option \<Rightarrow>
   error + ((string \<rightharpoonup> 'a accessors) option \<times> ('a, 'i) GroundPolylinePrimitive)" where
  "getGeometryInstanceAttributes conv this id_arg =
     (case id_arg of
        None \<Rightarrow> Inl (ReferenceError ''DeveloperError'')
      | Some key \<Rightarrow>
          (case primitive_p this of
             None \<Rightarrow> Inl (ReferenceError ''DeveloperError'')
           | Some p \<Rightarrow>
               (case batchTable_p p of
                  None \<Rightarrow> Inl (ReferenceError ''DeveloperError'')
                | Some batchTable \<Rightarrow>
                    (case idsToInstanceIndices_p this key of
                       None \<Rightarrow> Inr (None, this)
                     | Some instanceIndices \<Rightarrow>
                         (case attributeSynchronizerCache_p this key of
                            Some attributeSynchronizer \<Rightarrow> Inr (Some attributeSynchronizer, this)
                          | None \<Rightarrow>
                              let attributeSynchronizer =
                                    InstanceAttributeSynchronizer conv (fst instanceIndices)
                                      (snd instanceIndices) (batchTableAttributeIndices_p p)
                              in Inr (Some attributeSynchronizer,
                                      this\<lparr>attributeSynchronizerCache_p :=
                                             (attributeSynchronizerCache_p this)(key \<mapsto> attributeSynchronizer)\<rparr>))))))"

subsection \<open>Auxiliary functions for the proofs\<close>

text \<open>
  The segments one run of the loop of \<^verbatim>\<open>decompose\<close> appends, as a list of their own:
  the same test and the same body as \<open>decomposeLoop\<close>, without the array they are pushed
  onto. Lemma \<open>decomposeLoop_append\<close> below relates the two.
\<close>

function segmentsFrom ::
  "(nat \<Rightarrow> 'n list \<Rightarrow> 'n list \<Rightarrow> 'n list \<Rightarrow> 'n GroundLineGeometry) \<Rightarrow>
   'n WallVertices \<Rightarrow> 'n \<Rightarrow> 'n \<Rightarrow> string \<Rightarrow> nat \<Rightarrow> ('n::{zero,plus}) \<Rightarrow> 'n SegmentInstance list" where
  "segmentsFrom fromArrays wallVertices totalLength lineWidth commonId i lengthSoFar =
     (if int i < int (length (rightFacingNormals wallVertices)) - 3 then
        let groundPolylineSegmentGeometry =
              fromArrays i (rightFacingNormals wallVertices) (bottomPositions wallVertices)
                (topPositions wallVertices);
            segmentLength = segmentBottomLength groundPolylineSegmentGeometry;
            attrs = (getAttributes groundPolylineSegmentGeometry lengthSoFar segmentLength totalLength)
                      \<lparr>width' := Some \<lparr>componentDatatype = UNSIGNED_BYTE, componentsPerAttribute = 1,
                                        normalize = False, value' = [lineWidth]\<rparr>\<rparr>
        in \<lparr>geometry = groundPolylineSegmentGeometry, attributes' = attrs, id' = commonId\<rparr> #
           segmentsFrom fromArrays wallVertices totalLength lineWidth commonId (i + 3)
             (lengthSoFar + segmentLength)
      else [])"
  by pat_completeness auto
termination
  by (relation "measure (\<lambda>(fromArrays, wallVertices, totalLength, lineWidth, commonId, i,
        lengthSoFar). length (rightFacingNormals wallVertices) - i)") auto

text \<open>The segments that \<^verbatim>\<open>decompose\<close> appends for one geometry instance.\<close>

definition lineSegments ::
  "(('p, 'n) GroundPolylineGeometry \<Rightarrow> 'h \<Rightarrow> 'n WallVertices) \<Rightarrow>
   (nat \<Rightarrow> 'n list \<Rightarrow> 'n list \<Rightarrow> 'n list \<Rightarrow> 'n GroundLineGeometry) \<Rightarrow> 'h \<Rightarrow>
   (('p, 'n) GroundPolylineGeometry, 'at) GeometryInstance \<Rightarrow> ('n::{zero,plus}) SegmentInstance list" where
  "lineSegments createWallVertices fromArrays defaultMaxTerrainHeight geometryInstance =
     segmentsFrom fromArrays
       (createWallVertices (geometry geometryInstance) defaultMaxTerrainHeight)
       (lengthOnEllipsoid (geometry geometryInstance)) (width (geometry geometryInstance))
       (id' geometryInstance) 0 0"

text \<open>
  The index of the first segment of the \<open>p\<close>-th geometry instance in the flattened
  array: the number of segments of the instances before it.
\<close>

definition firstSegmentIndex ::
  "(('p, 'n) GroundPolylineGeometry \<Rightarrow> 'h \<Rightarrow> 'n WallVertices) \<Rightarrow>
   (nat \<Rightarrow> 'n list \<Rightarrow> 'n list \<Rightarrow> 'n list \<Rightarrow> ('n::{zero,plus}) GroundLineGeometry) \<Rightarrow> 'h \<Rightarrow>
   (('p, 'n) GroundPolylineGeometry, 'at) GeometryInstance list \<Rightarrow> nat \<Rightarrow> nat" where
  "firstSegmentIndex createWallVertices fromArrays defaultMaxTerrainHeight geometryInstances p =
     length (concat (map (lineSegments createWallVertices fromArrays defaultMaxTerrainHeight)
       (take p geometryInstances)))"

subsection \<open>Sample collaborators\<close>

text \<open>
  Concrete stand-ins for the two Core functions, used where a theorem is run on an input:
  a path of points on a line (one number each), a wall vertex set with one vertex of
  three packed components per path point, and a segment whose bottom length is the
  distance between the first components of two consecutive bottom vertices.
\<close>

definition sampleCreateWallVertices ::
  "(int, int) GroundPolylineGeometry \<Rightarrow> unit \<Rightarrow> int WallVertices" where
  "sampleCreateWallVertices groundPolylineGeometry wallHeight =
     \<lparr>rightFacingNormals = concat (map (\<lambda>x. [0, 1, 0]) (positions groundPolylineGeometry)),
      bottomPositions = concat (map (\<lambda>x. [x, 0, 0]) (positions groundPolylineGeometry)),
      topPositions = concat (map (\<lambda>x. [x, 0, 100]) (positions groundPolylineGeometry))\<rparr>"

definition sampleFromArrays ::
  "nat \<Rightarrow> int list \<Rightarrow> int list \<Rightarrow> int list \<Rightarrow> int GroundLineGeometry" where
  "sampleFromArrays i normals bottoms tops =
     \<lparr>segmentBottomLength = \<bar>bottoms ! (i + 3) - bottoms ! i\<bar>\<rparr>"

definition sampleLine ::
  "string \<Rightarrow> int list \<Rightarrow> int \<Rightarrow> int \<Rightarrow> ((int, int) GroundPolylineGeometry, unit) GeometryInstance" where
  "sampleLine key path lineWidth len =
     \<lparr>geometry = \<lparr>positions = path, width = lineWidth, lengthOnEllipsoid = len\<rparr>,
      attributes' = (), id' = key\<rparr>"

text \<open>
  A stand-in for the inner primitive once its batch table is built: one attribute,
  \<open>color\<close>, of four unsigned bytes, every slot holding \<open>(1, 1, 1, 1)\<close>.
\<close>

definition sampleNewPrimitive :: "int SegmentInstance list \<Rightarrow> int Primitive" where
  "sampleNewPrimitive polylineSegmentInstances =
     \<lparr>batchTable_p =
        Some \<lparr>attributes = [\<lparr>componentDatatype = UNSIGNED_BYTE, componentsPerAttribute = 4\<rparr>],
              batchValues = (\<lambda>slot. Cartesian4 1 1 1 1)\<rparr>,
      batchTableAttributeIndices_p = [''color'' \<mapsto> 0]\<rparr>"

section \<open>Properties of the attribute path\<close>

subsection \<open>The codec\<close>

lemma getAttributeValue_scalar:
  "getAttributeValue [x] = Inr (Number x)"
  by (simp add: getAttributeValue_def)

lemma getAttributeValue_returns:
  assumes "getAttributeValue v = Inr attributeValue" and "1 \<le> length v" and "length v \<le> 4"
  shows "v = [v ! 0] \<and> attributeValue = Number (v ! 0)"
proof -
  from assms have len: "length v = 1"
    by (auto simp: getAttributeValue_def Let_def split: if_splits)
  then obtain x where "v = [x]" by (auto simp: length_Suc_conv)
  with assms(1) show ?thesis by (simp add: getAttributeValue_scalar)
qed

lemma pack_scalar:
  assumes "componentsPerAttribute attribute = 1"
    and "conv (componentDatatype attribute) x = x"
  shows "packAttributeValue conv attribute (Number x) = Inr [x]"
  using assms
  by (simp add: packAttributeValue_def createTypedArray_def typedArrayWrite_def)

subsection \<open>The setter's loop\<close>

declare setLoop.simps [simp del]

lemma setLoop_stop:
  "\<not> i \<le> lastInstanceIndex \<Longrightarrow>
   setLoop batchTable i lastInstanceIndex attributeIndex v = (None, batchTable)"
  by (subst setLoop.simps) simp

lemma setLoop_throws:
  "i \<le> lastInstanceIndex \<Longrightarrow> getAttributeValue v = Inl e \<Longrightarrow>
   setLoop batchTable i lastInstanceIndex attributeIndex v = (Some e, batchTable)"
  by (subst setLoop.simps) simp

lemma setLoop_step:
  "i \<le> lastInstanceIndex \<Longrightarrow> getAttributeValue v = Inr attributeValue \<Longrightarrow>
   setLoop batchTable i lastInstanceIndex attributeIndex v =
     setLoop (setBatchedAttribute batchTable i attributeIndex attributeValue)
       (i + 1) lastInstanceIndex attributeIndex v"
  by (subst setLoop.simps) simp

lemma setLoop_writes:
  assumes "getAttributeValue v = Inr attributeValue"
  shows "fst (setLoop batchTable i lastInstanceIndex attributeIndex v) = None \<and>
     attributes (snd (setLoop batchTable i lastInstanceIndex attributeIndex v)) =
       attributes batchTable \<and>
     (\<forall>j k. batchValues (snd (setLoop batchTable i lastInstanceIndex attributeIndex v)) (j, k) =
        (if k = attributeIndex \<and> i \<le> j \<and> j \<le> lastInstanceIndex then attributeValue
         else batchValues batchTable (j, k)))"
  using assms
proof (induction batchTable i lastInstanceIndex attributeIndex v rule: setLoop.induct)
  case (1 batchTable i lastInstanceIndex attributeIndex v)
  show ?case
  proof (cases "i \<le> lastInstanceIndex")
    case True
    note step = setLoop_step [OF True "1.prems", of batchTable attributeIndex]
    from "1.IH" [OF True "1.prems" "1.prems"] True show ?thesis
      unfolding step by (auto simp: setBatchedAttribute_def)
  next
    case False
    then show ?thesis by (auto simp: setLoop_stop)
  qed
qed

lemma createSetFunction_valid:
  "1 \<le> length v \<Longrightarrow> length v \<le> 4 \<Longrightarrow>
   createSetFunction a b attributeIndex batchTable (Components v) =
     setLoop batchTable a b attributeIndex v"
  by (cases v) (simp_all add: createSetFunction_def)

lemma createSetFunction_completes:
  assumes "createSetFunction a b attributeIndex batchTable (Components v) = (None, batchTable')"
  shows "1 \<le> length v \<and> length v \<le> 4 \<and> setLoop batchTable a b attributeIndex v = (None, batchTable')"
proof -
  from assms have "\<not> (length v < 1 \<or> length v > 4)"
    by (auto simp: createSetFunction_def split: if_splits)
  then have len: "1 \<le> length v" "length v \<le> 4" by (cases v, simp_all)
  with assms show ?thesis by (simp add: createSetFunction_valid)
qed

subsection \<open>The codec's results\<close>

text \<open>
  C6, as stated, fails: for a buffer whose length is outside 1 to 4 the codec does not
  fail; it falls off its \<^verbatim>\<open>if\<close> chain and returns \<^verbatim>\<open>undefined\<close>.
\<close>

theorem getAttributeValue_no_error_counterexample:
  "getAttributeValue ([] :: int list) = Inr Undefined \<and>
   getAttributeValue [1, 2, 3, 4, 5 :: int] = Inr Undefined"
  by (simp add: getAttributeValue_def)

text \<open>
  C6, amended: \<open>getAttributeValue\<close> returns the bare number for a buffer of length 1,
  and for every length outside 1 to 4 it returns \<^verbatim>\<open>undefined\<close> and raises nothing;
  in both cases the result is decided by the length alone. A buffer of a length outside
  1 to 4 does not reach the codec through a setter: the setter throws first and leaves
  the batch table as it was. Nothing is said here about lengths 2, 3 and 4.
\<close>

theorem getAttributeValue_by_length:
  "(length v = 1 \<longrightarrow> getAttributeValue v = Inr (Number (v ! 0))) \<and>
   (length v < 1 \<or> 4 < length v \<longrightarrow> getAttributeValue v = Inr Undefined) \<and>
   (length v < 1 \<or> 4 < length v \<longrightarrow>
      (\<exists>e. createSetFunction a b attributeIndex batchTable (Components v) = (Some e, batchTable)))"
  by (auto simp: getAttributeValue_def createSetFunction_def)

theorem getAttributeValue_by_length_witness:
  "getAttributeValue [7 :: int] = Inr (Number 7) \<and>
   getAttributeValue ([] :: int list) = Inr Undefined \<and>
   getAttributeValue [1, 2, 3, 4, 5 :: int] = Inr Undefined \<and>
   (\<exists>e. createSetFunction 0 2 0 \<lparr>attributes = [], batchValues = (\<lambda>slot. Undefined)\<rparr>
       (Components [1, 2, 3, 4, 5 :: int]) =
     (Some e, \<lparr>attributes = [], batchValues = (\<lambda>slot. Undefined)\<rparr>))"
  using getAttributeValue_by_length [of "[7 :: int]"]
    getAttributeValue_by_length [of "[] :: int list"]
    getAttributeValue_by_length [of "[1, 2, 3, 4, 5 :: int]" 0 2 0
      "\<lparr>attributes = [], batchValues = (\<lambda>slot. Undefined)\<rparr>"]
  by simp

text \<open>
  C8 does not hold of the module as written: for a value of 2, 3 or 4 components the
  decoding step \<open>getAttributeValue\<close> throws a \<^verbatim>\<open>ReferenceError\<close>, because
  \<^verbatim>\<open>Cartesian2\<close>, \<^verbatim>\<open>Cartesian3\<close> and \<^verbatim>\<open>Cartesian4\<close> are not bound, so there is
  nothing to encode again. (For one component the round trip does give the component
  back: lemmas \<open>getAttributeValue_scalar\<close> and \<open>pack_scalar\<close>.)
\<close>

theorem getAttributeValue_vector_throws:
  "getAttributeValue [255, 0, 0, 255 :: int] = Inl (ReferenceError ''Cartesian4'') \<and>
   getAttributeValue [1, 2, 3 :: int] = Inl (ReferenceError ''Cartesian3'') \<and>
   getAttributeValue [1, 2 :: int] = Inl (ReferenceError ''Cartesian2'')"
  by (simp add: getAttributeValue_def)

subsection \<open>The setter\<close>

text \<open>
  C7 does not hold of the module as written. A setter called with an array of 2, 3 or 4
  components, which the check lets through, throws a \<^verbatim>\<open>ReferenceError\<close> in the first
  round of its loop, before any slot is written: no index from \<open>firstInstanceIndex\<close> to
  \<open>lastInstanceIndex\<close> receives the value. A rejected value leaves the batch table as
  it was, as the claim says, but what is thrown is again a \<^verbatim>\<open>ReferenceError\<close>, for
  the unbound \<^verbatim>\<open>DeveloperError\<close>.
\<close>

theorem createSetFunction_vector_throws:
  "createSetFunction 2 4 attributeIndex batchTable (Components [255, 0, 0, 255 :: int]) =
     (Some (ReferenceError ''Cartesian4''), batchTable) \<and>
   createSetFunction 2 4 attributeIndex batchTable (Components ([] :: int list)) =
     (Some (ReferenceError ''DeveloperError''), batchTable) \<and>
   createSetFunction 2 4 attributeIndex batchTable (NotDefined :: int argument) =
     (Some (ReferenceError ''DeveloperError''), batchTable)"
proof -
  have "getAttributeValue [255, 0, 0, 255 :: int] = Inl (ReferenceError ''Cartesian4'')"
    by (simp add: getAttributeValue_def)
  then have "setLoop batchTable 2 4 attributeIndex [255, 0, 0, 255 :: int] =
      (Some (ReferenceError ''Cartesian4''), batchTable)"
    by (intro setLoop_throws) simp_all
  then show ?thesis
    by (simp add: createSetFunction_def)
qed

subsection \<open>The synchronizer\<close>

text \<open>
  C1, as stated, fails, also where the set completes: a value of one component set on an
  attribute declared with four is read back as four components; on the inverted range
  \<open>[2, 1]\<close> of a line without segments the set writes nothing and the get returns what
  slot 2 held; and a number that the attribute's typed array does not keep (256 in an
  unsigned byte) is read back changed.
\<close>

theorem synchronizer_get_differs_counterexample:
  "createSetFunction 2 4 0
     \<lparr>attributes = [\<lparr>componentDatatype = UNSIGNED_BYTE, componentsPerAttribute = 4\<rparr>],
      batchValues = (\<lambda>slot. Cartesian4 1 1 1 1)\<rparr> (Components [7 :: int]) =
   (None, snd (createSetFunction 2 4 0
     \<lparr>attributes = [\<lparr>componentDatatype = UNSIGNED_BYTE, componentsPerAttribute = 4\<rparr>],
      batchValues = (\<lambda>slot. Cartesian4 1 1 1 1)\<rparr> (Components [7]))) \<and>
   createGetFunction (\<lambda>dt x. x mod 256) 2 0 (snd (createSetFunction 2 4 0
     \<lparr>attributes = [\<lparr>componentDatatype = UNSIGNED_BYTE, componentsPerAttribute = 4\<rparr>],
      batchValues = (\<lambda>slot. Cartesian4 1 1 1 1)\<rparr> (Components [7 :: int]))) = Inr [7, 0, 0, 0] \<and>
   createSetFunction 2 1 0
     \<lparr>attributes = [\<lparr>componentDatatype = UNSIGNED_BYTE, componentsPerAttribute = 1\<rparr>],
      batchValues = (\<lambda>slot. Number 5)\<rparr> (Components [7 :: int]) =
   (None, \<lparr>attributes = [\<lparr>componentDatatype = UNSIGNED_BYTE, componentsPerAttribute = 1\<rparr>],
      batchValues = (\<lambda>slot. Number 5)\<rparr>) \<and>
   createGetFunction (\<lambda>dt x. x mod 256) 2 0
     \<lparr>attributes = [\<lparr>componentDatatype = UNSIGNED_BYTE, componentsPerAttribute = 1\<rparr>],
      batchValues = (\<lambda>slot. Number (5 :: int))\<rparr> = Inr [5] \<and>
   createGetFunction (\<lambda>dt x. x mod 256) 2 0 (snd (createSetFunction 2 4 0
     \<lparr>attributes = [\<lparr>componentDatatype = UNSIGNED_BYTE, componentsPerAttribute = 1\<rparr>],
      batchValues = (\<lambda>slot. Number 5)\<rparr> (Components [256 :: int]))) = Inr [0]"
proof -
  let ?bt4 = "\<lparr>attributes = [\<lparr>componentDatatype = UNSIGNED_BYTE, componentsPerAttribute = 4\<rparr>],
      batchValues = (\<lambda>slot. Cartesian4 1 1 1 (1 :: int))\<rparr>"
  let ?bt1 = "\<lparr>attributes = [\<lparr>componentDatatype = UNSIGNED_BYTE, componentsPerAttribute = 1\<rparr>],
      batchValues = (\<lambda>slot. Number (5 :: int))\<rparr>"
  note w7 = setLoop_writes [OF getAttributeValue_scalar [of "7 :: int"], of ?bt4 2 4 0]
  note w256 = setLoop_writes [OF getAttributeValue_scalar [of "256 :: int"], of ?bt1 2 4 0]
  have set7: "createSetFunction 2 4 0 ?bt4 (Components [7]) = setLoop ?bt4 2 4 0 [7]"
    by (simp add: createSetFunction_def)
  have set256: "createSetFunction 2 4 0 ?bt1 (Components [256]) = setLoop ?bt1 2 4 0 [256]"
    by (simp add: createSetFunction_def)
  have a: "createSetFunction 2 4 0 ?bt4 (Components [7]) =
      (None, snd (createSetFunction 2 4 0 ?bt4 (Components [7])))"
    unfolding set7 using w7 by (simp add: prod_eq_iff)
  have b: "createGetFunction (\<lambda>dt x. x mod 256) 2 0 (snd (createSetFunction 2 4 0 ?bt4 (Components [7]))) =
      Inr [7, 0, 0, 0]"
    unfolding set7 using w7
    by (simp add: createGetFunction_def getBatchedAttribute_def packAttributeValue_def
        createTypedArray_def typedArrayWrite_def eval_nat_numeral)
  have c: "createSetFunction 2 1 0 ?bt1 (Components [7]) = (None, ?bt1)"
    by (simp add: createSetFunction_def setLoop_stop)
  have d: "createGetFunction (\<lambda>dt x. x mod 256) 2 0 ?bt1 = Inr [5]"
    by (simp add: createGetFunction_def getBatchedAttribute_def packAttributeValue_def
        createTypedArray_def typedArrayWrite_def)
  have e: "createGetFunction (\<lambda>dt x. x mod 256) 2 0 (snd (createSetFunction 2 4 0 ?bt1 (Components [256]))) =
      Inr [0]"
    unfolding set256 using w256
    by (simp add: createGetFunction_def getBatchedAttribute_def packAttributeValue_def
        createTypedArray_def typedArrayWrite_def)
  from a b c d e show ?thesis by (intro conjI)
qed

text \<open>
  C1, amended: for a synchronizer over the range \<open>[a, b]\<close> and an attribute name it
  declares, after a set with a value \<open>v\<close> that completes, every index \<open>i\<close> with
  \<open>a \<le> i \<le> b\<close> holds the same value for that attribute, the unpacked \<open>v\<close>; every slot at
  an index outside \<open>[a, b]\<close>, and every slot of another attribute, is unchanged; and the
  get on the same synchronizer returns \<open>v\<close> when the range is not empty, \<open>v\<close> has the
  arity the attribute declares, and the attribute's typed array keeps the components of
  \<open>v\<close> as they are. Nothing is said here about a set that throws.
\<close>

theorem synchronizer_set_uniform:
  assumes "batchTableAttributeIndices name = Some attributeIndex"
    and "createSetFunction a b attributeIndex batchTable (Components v) = (None, batchTable')"
  shows "InstanceAttributeSynchronizer conv a b batchTableAttributeIndices name =
       Some (createGetFunction conv a attributeIndex, createSetFunction a b attributeIndex) \<and>
     attributes batchTable' = attributes batchTable \<and>
     (\<forall>i. a \<le> i \<and> i \<le> b \<longrightarrow>
        getAttributeValue v = Inr (getBatchedAttribute batchTable' i attributeIndex)) \<and>
     (\<forall>i k. \<not> (a \<le> i \<and> i \<le> b) \<or> k \<noteq> attributeIndex \<longrightarrow>
        getBatchedAttribute batchTable' i k = getBatchedAttribute batchTable i k) \<and>
     (a \<le> b \<and> attributeIndex < length (attributes batchTable) \<and>
      componentsPerAttribute (attributes batchTable ! attributeIndex) = length v \<and>
      (\<forall>x \<in> set v. conv (componentDatatype (attributes batchTable ! attributeIndex)) x = x) \<longrightarrow>
        createGetFunction conv a attributeIndex batchTable' = Inr v)"
proof -
  from createSetFunction_completes [OF assms(2)]
  have len: "1 \<le> length v" "length v \<le> 4"
    and loop: "setLoop batchTable a b attributeIndex v = (None, batchTable')"
    by simp_all
  have sync: "InstanceAttributeSynchronizer conv a b batchTableAttributeIndices name =
      Some (createGetFunction conv a attributeIndex, createSetFunction a b attributeIndex)"
    using assms(1) by (simp add: InstanceAttributeSynchronizer_def)
  show ?thesis
  proof (cases "a \<le> b")
    case False
    with loop have same: "batchTable' = batchTable" by (simp add: setLoop_stop)
    from False same sync show ?thesis by auto
  next
    case True
    obtain attributeValue where av: "getAttributeValue v = Inr attributeValue"
    proof (cases "getAttributeValue v")
      case (Inl e)
      from setLoop_throws [OF True Inl, of batchTable attributeIndex] loop show ?thesis by simp
    next
      case (Inr x)
      then show ?thesis by (rule that)
    qed
    from getAttributeValue_returns [OF av len]
    have v: "v = [v ! 0]" and num: "attributeValue = Number (v ! 0)" by simp_all
    note w = setLoop_writes [OF av, of batchTable a b attributeIndex, unfolded loop]
    from w have attrs: "attributes batchTable' = attributes batchTable" by simp
    from w have vals: "batchValues batchTable' (j, k) =
        (if k = attributeIndex \<and> a \<le> j \<and> j \<le> b then attributeValue
         else batchValues batchTable (j, k))" for j k
      by simp
    have inside: "\<forall>i. a \<le> i \<and> i \<le> b \<longrightarrow>
        getAttributeValue v = Inr (getBatchedAttribute batchTable' i attributeIndex)"
      by (simp add: getBatchedAttribute_def vals av)
    have outside: "\<forall>i k. \<not> (a \<le> i \<and> i \<le> b) \<or> k \<noteq> attributeIndex \<longrightarrow>
        getBatchedAttribute batchTable' i k = getBatchedAttribute batchTable i k"
      by (auto simp: getBatchedAttribute_def vals)
    have get_ok: "createGetFunction conv a attributeIndex batchTable' = Inr v"
      if "attributeIndex < length (attributes batchTable)"
        and "componentsPerAttribute (attributes batchTable ! attributeIndex) = length v"
        and "\<forall>x \<in> set v. conv (componentDatatype (attributes batchTable ! attributeIndex)) x = x"
    proof -
      have one: "componentsPerAttribute (attributes batchTable ! attributeIndex) = 1"
        using that(2) v by (metis length_Cons list.size(3) One_nat_def)
      have keep: "conv (componentDatatype (attributes batchTable ! attributeIndex)) (v ! 0) = v ! 0"
        using that(3) v by (metis list.set_intros(1))
      have "getBatchedAttribute batchTable' a attributeIndex = Number (v ! 0)"
        using True by (simp add: getBatchedAttribute_def vals num)
      with that(1) v
        pack_scalar [where attribute = "attributes batchTable ! attributeIndex"
          and conv = conv and x = "v ! 0", OF one keep]
      show ?thesis
        by (simp add: createGetFunction_def attrs)
    qed
    from sync attrs inside outside get_ok show ?thesis by blast
  qed
qed

theorem synchronizer_set_uniform_witness:
  "[''width'' \<mapsto> 0 :: nat] ''width'' = Some 0 \<and>
   createSetFunction 2 4 0
     \<lparr>attributes = [\<lparr>componentDatatype = UNSIGNED_BYTE, componentsPerAttribute = 1\<rparr>],
      batchValues = (\<lambda>slot. Number 5)\<rparr> (Components [7 :: int]) =
   (None, snd (createSetFunction 2 4 0
     \<lparr>attributes = [\<lparr>componentDatatype = UNSIGNED_BYTE, componentsPerAttribute = 1\<rparr>],
      batchValues = (\<lambda>slot. Number 5)\<rparr> (Components [7]))) \<and>
   getBatchedAttribute (snd (createSetFunction 2 4 0
     \<lparr>attributes = [\<lparr>componentDatatype = UNSIGNED_BYTE, componentsPerAttribute = 1\<rparr>],
      batchValues = (\<lambda>slot. Number 5)\<rparr> (Components [7 :: int]))) 3 0 = Number 7 \<and>
   getBatchedAttribute (snd (createSetFunction 2 4 0
     \<lparr>attributes = [\<lparr>componentDatatype = UNSIGNED_BYTE, componentsPerAttribute = 1\<rparr>],
      batchValues = (\<lambda>slot. Number 5)\<rparr> (Components [7 :: int]))) 5 0 = Number 5 \<and>
   createGetFunction (\<lambda>dt x. x mod 256) 2 0 (snd (createSetFunction 2 4 0
     \<lparr>attributes = [\<lparr>componentDatatype = UNSIGNED_BYTE, componentsPerAttribute = 1\<rparr>],
      batchValues = (\<lambda>slot. Number 5)\<rparr> (Components [7 :: int]))) = Inr [7]"
proof -
  let ?bt = "\<lparr>attributes = [\<lparr>componentDatatype = UNSIGNED_BYTE, componentsPerAttribute = 1\<rparr>],
      batchValues = (\<lambda>slot. Number (5 :: int))\<rparr>"
  let ?bt' = "snd (createSetFunction 2 4 0 ?bt (Components [7]))"
  have h1: "[''width'' \<mapsto> 0 :: nat] ''width'' = Some 0" by simp
  have "createSetFunction 2 4 0 ?bt (Components [7]) = setLoop ?bt 2 4 0 [7]"
    by (simp add: createSetFunction_def)
  with setLoop_writes [OF getAttributeValue_scalar [of "7 :: int"], of ?bt 2 4 0]
  have h2: "createSetFunction 2 4 0 ?bt (Components [7]) = (None, ?bt')"
    by (simp add: prod_eq_iff)
  note r = synchronizer_set_uniform [where batchTableAttributeIndices = "[''width'' \<mapsto> 0]"
      and name = "''width''" and attributeIndex = 0 and v = "[7]" and a = 2 and b = 4
      and batchTable = ?bt and batchTable' = ?bt' and conv = "\<lambda>dt x. x mod 256", OF h1 h2]
  from r have inside: "\<forall>i. 2 \<le> i \<and> i \<le> 4 \<longrightarrow>
      getAttributeValue [7 :: int] = Inr (getBatchedAttribute ?bt' i 0)"
    by (elim conjE)
  from r have outside: "\<forall>i k. \<not> (2 \<le> i \<and> i \<le> 4) \<or> k \<noteq> 0 \<longrightarrow>
      getBatchedAttribute ?bt' i k = getBatchedAttribute ?bt i k"
    by (elim conjE)
  from r have get: "(2 :: int) \<le> 4 \<and> 0 < length (attributes ?bt) \<and>
      componentsPerAttribute (attributes ?bt ! 0) = length [7 :: int] \<and>
      (\<forall>x \<in> set [7 :: int]. (\<lambda>dt x. x mod 256) (componentDatatype (attributes ?bt ! 0)) x = x) \<longrightarrow>
        createGetFunction (\<lambda>dt x. x mod 256) 2 0 ?bt' = Inr [7]"
    by (elim conjE)
  from inside have "getAttributeValue [7 :: int] = Inr (getBatchedAttribute ?bt' 3 0)" by simp
  then have i3: "getBatchedAttribute ?bt' 3 0 = Number 7"
    by (simp add: getAttributeValue_scalar)
  from outside have "getBatchedAttribute ?bt' 5 0 = getBatchedAttribute ?bt 5 0" by simp
  then have o5: "getBatchedAttribute ?bt' 5 0 = Number 5"
    by (simp add: getBatchedAttribute_def)
  from get have g: "createGetFunction (\<lambda>dt x. x mod 256) 2 0 ?bt' = Inr [7]" by simp
  from h1 h2 i3 o5 g show ?thesis by (intro conjI)
qed

section \<open>Properties of the decomposition\<close>

subsection \<open>The loop of decompose\<close>

declare decomposeLoop.simps [simp del] segmentsFrom.simps [simp del]

lemma segmentsFrom_stop:
  "\<not> i + 3 < length (rightFacingNormals wallVertices) \<Longrightarrow>
   segmentsFrom fromArrays wallVertices totalLength lineWidth commonId i lengthSoFar = []"
  by (subst segmentsFrom.simps) simp

lemma segmentsFrom_step:
  "i + 3 < length (rightFacingNormals wallVertices) \<Longrightarrow>
   segmentsFrom fromArrays wallVertices totalLength lineWidth commonId i lengthSoFar =
     \<lparr>geometry = fromArrays i (rightFacingNormals wallVertices) (bottomPositions wallVertices)
                   (topPositions wallVertices),
      attributes' =
        \<lparr>startDistance = lengthSoFar,
         thisSegmentLength =
           segmentBottomLength (fromArrays i (rightFacingNormals wallVertices)
             (bottomPositions wallVertices) (topPositions wallVertices)),
         totalLineLength = totalLength,
         width' = Some \<lparr>componentDatatype = UNSIGNED_BYTE, componentsPerAttribute = 1,
                         normalize = False, value' = [lineWidth]\<rparr>\<rparr>,
      id' = commonId\<rparr> #
     segmentsFrom fromArrays wallVertices totalLength lineWidth commonId (i + 3)
       (lengthSoFar + segmentBottomLength (fromArrays i (rightFacingNormals wallVertices)
             (bottomPositions wallVertices) (topPositions wallVertices)))"
  by (subst segmentsFrom.simps) (simp add: Let_def getAttributes_def)

lemma decomposeLoop_stop:
  "\<not> i + 3 < length (rightFacingNormals wallVertices) \<Longrightarrow>
   decomposeLoop fromArrays wallVertices totalLength lineWidth commonId i lengthSoFar segs = segs"
  by (subst decomposeLoop.simps) simp

lemma decomposeLoop_step:
  "i + 3 < length (rightFacingNormals wallVertices) \<Longrightarrow>
   decomposeLoop fromArrays wallVertices totalLength lineWidth commonId i lengthSoFar segs =
     decomposeLoop fromArrays wallVertices totalLength lineWidth commonId (i + 3)
       (lengthSoFar + segmentBottomLength (fromArrays i (rightFacingNormals wallVertices)
             (bottomPositions wallVertices) (topPositions wallVertices)))
       (segs @
        [\<lparr>geometry = fromArrays i (rightFacingNormals wallVertices) (bottomPositions wallVertices)
                   (topPositions wallVertices),
          attributes' =
            \<lparr>startDistance = lengthSoFar,
             thisSegmentLength =
               segmentBottomLength (fromArrays i (rightFacingNormals wallVertices)
                 (bottomPositions wallVertices) (topPositions wallVertices)),
             totalLineLength = totalLength,
             width' = Some \<lparr>componentDatatype = UNSIGNED_BYTE, componentsPerAttribute = 1,
                             normalize = False, value' = [lineWidth]\<rparr>\<rparr>,
          id' = commonId\<rparr>])"
  by (subst decomposeLoop.simps) (simp add: Let_def getAttributes_def)

lemma decomposeLoop_append:
  "decomposeLoop fromArrays wallVertices totalLength lineWidth commonId i lengthSoFar segs =
     segs @ segmentsFrom fromArrays wallVertices totalLength lineWidth commonId i lengthSoFar"
proof (induction fromArrays wallVertices totalLength lineWidth commonId i lengthSoFar
    arbitrary: segs rule: segmentsFrom.induct)
  case (1 fromArrays wallVertices totalLength lineWidth commonId i lengthSoFar)
  show ?case
  proof (cases "i + 3 < length (rightFacingNormals wallVertices)")
    case True
    then have c: "int i < int (length (rightFacingNormals wallVertices)) - 3" by simp
    show ?thesis
      by (simp only: decomposeLoop_step [OF True] segmentsFrom_step [OF True]
          "1.IH" [OF c refl refl refl] append_Cons append_Nil append_assoc)
  next
    case False
    then show ?thesis
      by (simp add: decomposeLoop_stop segmentsFrom_stop)
  qed
qed

lemma length_segmentsFrom_triples:
  "length (rightFacingNormals wallVertices) = 3 * m \<Longrightarrow> i = 3 * j \<Longrightarrow>
   length (segmentsFrom fromArrays wallVertices totalLength lineWidth commonId i lengthSoFar) =
     m - 1 - j"
proof (induction fromArrays wallVertices totalLength lineWidth commonId i lengthSoFar
    arbitrary: j rule: segmentsFrom.induct)
  case (1 fromArrays wallVertices totalLength lineWidth commonId i lengthSoFar)
  show ?case
  proof (cases "i + 3 < length (rightFacingNormals wallVertices)")
    case True
    then have c: "int i < int (length (rightFacingNormals wallVertices)) - 3" by simp
    have next_i: "i + 3 = 3 * Suc j" using "1.prems"(2) by simp
    have "length (segmentsFrom fromArrays wallVertices totalLength lineWidth commonId i lengthSoFar) =
        Suc (m - 1 - Suc j)"
      by (simp only: segmentsFrom_step [OF True]
          "1.IH" [OF c refl refl refl "1.prems"(1) next_i] length_Cons)
    also have "\<dots> = m - 1 - j"
      using True "1.prems" by simp
    finally show ?thesis .
  next
    case False
    with "1.prems" have "m - 1 - j = 0" by simp
    with False show ?thesis
      by (simp add: segmentsFrom_stop)
  qed
qed

lemma length_segmentsFrom_remainder:
  "length (rightFacingNormals wallVertices) = 3 * m + r \<Longrightarrow> 0 < r \<Longrightarrow> r < 3 \<Longrightarrow> i = 3 * j \<Longrightarrow>
   length (segmentsFrom fromArrays wallVertices totalLength lineWidth commonId i lengthSoFar) = m - j"
proof (induction fromArrays wallVertices totalLength lineWidth commonId i lengthSoFar
    arbitrary: j rule: segmentsFrom.induct)
  case (1 fromArrays wallVertices totalLength lineWidth commonId i lengthSoFar)
  show ?case
  proof (cases "i + 3 < length (rightFacingNormals wallVertices)")
    case True
    then have c: "int i < int (length (rightFacingNormals wallVertices)) - 3" by simp
    have next_i: "i + 3 = 3 * Suc j" using "1.prems"(4) by simp
    have "length (segmentsFrom fromArrays wallVertices totalLength lineWidth commonId i lengthSoFar) =
        Suc (m - Suc j)"
      by (simp only: segmentsFrom_step [OF True]
          "1.IH" [OF c refl refl refl "1.prems"(1,2,3) next_i] length_Cons)
    also have "\<dots> = m - j"
      using True "1.prems" by simp
    finally show ?thesis .
  next
    case False
    with "1.prems" have "m - j = 0" by simp
    with False show ?thesis
      by (simp add: segmentsFrom_stop)
  qed
qed

lemma segmentsFrom_nth:
  "k < length (segmentsFrom fromArrays wallVertices totalLength lineWidth commonId i lengthSoFar) \<Longrightarrow>
   geometry (segmentsFrom fromArrays wallVertices totalLength lineWidth commonId i lengthSoFar ! k) =
     fromArrays (i + 3 * k) (rightFacingNormals wallVertices) (bottomPositions wallVertices)
       (topPositions wallVertices) \<and>
   id' (segmentsFrom fromArrays wallVertices totalLength lineWidth commonId i lengthSoFar ! k) = commonId \<and>
   i + 3 * k + 3 < length (rightFacingNormals wallVertices)"
proof (induction fromArrays wallVertices totalLength lineWidth commonId i lengthSoFar
    arbitrary: k rule: segmentsFrom.induct)
  case (1 fromArrays wallVertices totalLength lineWidth commonId i lengthSoFar)
  show ?case
  proof (cases "i + 3 < length (rightFacingNormals wallVertices)")
    case True
    then have c: "int i < int (length (rightFacingNormals wallVertices)) - 3" by simp
    note step = segmentsFrom_step [OF True, of fromArrays totalLength lineWidth commonId lengthSoFar]
    show ?thesis
    proof (cases k)
      case 0
      with True show ?thesis by (simp add: step)
    next
      case (Suc k')
      with "1.prems" have "k' < length (segmentsFrom fromArrays wallVertices totalLength lineWidth
          commonId (i + 3) (lengthSoFar + segmentBottomLength (fromArrays i
            (rightFacingNormals wallVertices) (bottomPositions wallVertices) (topPositions wallVertices))))"
        by (simp add: step)
      from "1.IH" [OF c refl refl refl this] Suc show ?thesis
        by (simp add: step add.assoc)
    qed
  next
    case False
    with "1.prems" show ?thesis by (simp add: segmentsFrom_stop)
  qed
qed

lemma segmentsFrom_attributes:
  "k < length (segmentsFrom fromArrays wallVertices totalLength lineWidth commonId i lengthSoFar) \<Longrightarrow>
   thisSegmentLength (attributes'
       (segmentsFrom fromArrays wallVertices totalLength lineWidth commonId i lengthSoFar ! k)) =
     segmentBottomLength (geometry
       (segmentsFrom fromArrays wallVertices totalLength lineWidth commonId i lengthSoFar ! k)) \<and>
   totalLineLength (attributes'
       (segmentsFrom fromArrays wallVertices totalLength lineWidth commonId i lengthSoFar ! k)) =
     totalLength \<and>
   width' (attributes'
       (segmentsFrom fromArrays wallVertices totalLength lineWidth commonId i lengthSoFar ! k)) =
     Some \<lparr>componentDatatype = UNSIGNED_BYTE, componentsPerAttribute = 1,
           normalize = False, value' = [lineWidth]\<rparr>"
proof (induction fromArrays wallVertices totalLength lineWidth commonId i lengthSoFar
    arbitrary: k rule: segmentsFrom.induct)
  case (1 fromArrays wallVertices totalLength lineWidth commonId i lengthSoFar)
  show ?case
  proof (cases "i + 3 < length (rightFacingNormals wallVertices)")
    case True
    then have c: "int i < int (length (rightFacingNormals wallVertices)) - 3" by simp
    note step = segmentsFrom_step [OF True, of fromArrays totalLength lineWidth commonId lengthSoFar]
    show ?thesis
    proof (cases k)
      case 0
      then show ?thesis by (simp add: step)
    next
      case (Suc k')
      with "1.prems" have "k' < length (segmentsFrom fromArrays wallVertices totalLength lineWidth
          commonId (i + 3) (lengthSoFar + segmentBottomLength (fromArrays i
            (rightFacingNormals wallVertices) (bottomPositions wallVertices) (topPositions wallVertices))))"
        by (simp add: step)
      from "1.IH" [OF c refl refl refl this] Suc show ?thesis
        by (simp add: step)
    qed
  next
    case False
    with "1.prems" show ?thesis by (simp add: segmentsFrom_stop)
  qed
qed

lemma segmentsFrom_first_start:
  "segmentsFrom fromArrays wallVertices totalLength lineWidth commonId i lengthSoFar \<noteq> [] \<Longrightarrow>
   startDistance (attributes'
     (segmentsFrom fromArrays wallVertices totalLength lineWidth commonId i lengthSoFar ! 0)) =
     lengthSoFar"
proof (cases "i + 3 < length (rightFacingNormals wallVertices)")
  case True
  show ?thesis
    by (simp add: segmentsFrom_step [OF True, of fromArrays totalLength lineWidth commonId lengthSoFar])
next
  case False
  assume "segmentsFrom fromArrays wallVertices totalLength lineWidth commonId i lengthSoFar \<noteq> []"
  with False show ?thesis by (simp add: segmentsFrom_stop)
qed

lemma segmentsFrom_next_start:
  "Suc k < length (segmentsFrom fromArrays wallVertices totalLength lineWidth commonId i lengthSoFar) \<Longrightarrow>
   startDistance (attributes'
     (segmentsFrom fromArrays wallVertices totalLength lineWidth commonId i lengthSoFar ! Suc k)) =
   startDistance (attributes'
     (segmentsFrom fromArrays wallVertices totalLength lineWidth commonId i lengthSoFar ! k)) +
   thisSegmentLength (attributes'
     (segmentsFrom fromArrays wallVertices totalLength lineWidth commonId i lengthSoFar ! k))"
proof (induction fromArrays wallVertices totalLength lineWidth commonId i lengthSoFar
    arbitrary: k rule: segmentsFrom.induct)
  case (1 fromArrays wallVertices totalLength lineWidth commonId i lengthSoFar)
  show ?case
  proof (cases "i + 3 < length (rightFacingNormals wallVertices)")
    case True
    then have c: "int i < int (length (rightFacingNormals wallVertices)) - 3" by simp
    note step = segmentsFrom_step [OF True, of fromArrays totalLength lineWidth commonId lengthSoFar]
    let ?rest = "segmentsFrom fromArrays wallVertices totalLength lineWidth
          commonId (i + 3) (lengthSoFar + segmentBottomLength (fromArrays i
            (rightFacingNormals wallVertices) (bottomPositions wallVertices) (topPositions wallVertices)))"
    show ?thesis
    proof (cases k)
      case 0
      with "1.prems" have "?rest \<noteq> []" by (auto simp: step)
      from segmentsFrom_first_start [OF this] 0 show ?thesis
        by (simp add: step)
    next
      case (Suc k')
      with "1.prems" have "Suc k' < length ?rest"
        by (simp add: step)
      from "1.IH" [OF c refl refl refl this] Suc show ?thesis
        by (simp add: step)
    qed
  next
    case False
    with "1.prems" show ?thesis by (simp add: segmentsFrom_stop)
  qed
qed

lemma segmentsFrom_end:
  "segmentsFrom fromArrays wallVertices totalLength lineWidth commonId i lengthSoFar \<noteq> [] \<Longrightarrow>
   startDistance (attributes'
     (last (segmentsFrom fromArrays wallVertices totalLength lineWidth commonId i lengthSoFar))) +
   thisSegmentLength (attributes'
     (last (segmentsFrom fromArrays wallVertices totalLength lineWidth commonId i lengthSoFar))) =
   foldl (+) lengthSoFar (map (\<lambda>s. thisSegmentLength (attributes' s))
     (segmentsFrom fromArrays wallVertices totalLength lineWidth commonId i lengthSoFar))"
proof (induction fromArrays wallVertices totalLength lineWidth commonId i lengthSoFar
    rule: segmentsFrom.induct)
  case (1 fromArrays wallVertices totalLength lineWidth commonId i lengthSoFar)
  show ?case
  proof (cases "i + 3 < length (rightFacingNormals wallVertices)")
    case True
    then have c: "int i < int (length (rightFacingNormals wallVertices)) - 3" by simp
    note step = segmentsFrom_step [OF True, of fromArrays totalLength lineWidth commonId lengthSoFar]
    let ?rest = "segmentsFrom fromArrays wallVertices totalLength lineWidth
          commonId (i + 3) (lengthSoFar + segmentBottomLength (fromArrays i
            (rightFacingNormals wallVertices) (bottomPositions wallVertices) (topPositions wallVertices)))"
    show ?thesis
    proof (cases "?rest = []")
      case True
      then show ?thesis by (simp add: step)
    next
      case False
      from "1.IH" [OF c refl refl refl False] False show ?thesis
        by (simp add: step)
    qed
  next
    case False
    with "1.prems" show ?thesis by (simp add: segmentsFrom_stop)
  qed
qed


subsection \<open>One call of decompose\<close>

lemma decompose_eq:
  "decompose createWallVertices fromArrays h geometryInstance segs idx =
     (segs @ lineSegments createWallVertices fromArrays h geometryInstance,
      idx(id' geometryInstance \<mapsto>
        (int (length segs),
         int (length segs) +
           int (length (lineSegments createWallVertices fromArrays h geometryInstance)) - 1)))"
  by (simp add: decompose_def lineSegments_def decomposeLoop_append Let_def)

lemma drop_decompose:
  "drop (length segs) (fst (decompose createWallVertices fromArrays h geometryInstance segs idx)) =
     lineSegments createWallVertices fromArrays h geometryInstance"
  by (simp add: decompose_eq)

subsection \<open>The sample collaborators, evaluated\<close>

lemma sample_lineSegments_1:
  "lineSegments sampleCreateWallVertices sampleFromArrays () (sampleLine key [a] w len) = []"
proof -
  let ?wv = "sampleCreateWallVertices \<lparr>positions = [a], width = w, lengthOnEllipsoid = len\<rparr> ()"
  have s0: "\<not> 0 + 3 < length (rightFacingNormals ?wv)" by (simp add: sampleCreateWallVertices_def)
  show ?thesis
    unfolding lineSegments_def sampleLine_def
    by (simp only: GeometryInstance.simps GroundPolylineGeometry.simps segmentsFrom_stop [OF s0])
qed

lemma sample_lineSegments_2:
  "lineSegments sampleCreateWallVertices sampleFromArrays () (sampleLine key [a, b] w len) =
     [\<lparr>geometry = \<lparr>segmentBottomLength = \<bar>b - a\<bar>\<rparr>,
       attributes' = \<lparr>startDistance = 0, thisSegmentLength = \<bar>b - a\<bar>, totalLineLength = len,
         width' = Some \<lparr>componentDatatype = UNSIGNED_BYTE, componentsPerAttribute = 1,
                         normalize = False, value' = [w]\<rparr>\<rparr>,
       id' = key\<rparr>]"
proof -
  let ?wv = "sampleCreateWallVertices \<lparr>positions = [a, b], width = w, lengthOnEllipsoid = len\<rparr> ()"
  have V: "length (rightFacingNormals ?wv) = 6" by (simp add: sampleCreateWallVertices_def)
  have s0: "0 + 3 < length (rightFacingNormals ?wv)" using V by simp
  have s3: "\<not> 0 + 3 + 3 < length (rightFacingNormals ?wv)" using V by simp
  show ?thesis
    unfolding lineSegments_def sampleLine_def
    apply (simp only: GeometryInstance.simps GroundPolylineGeometry.simps)
    apply (subst segmentsFrom_step [OF s0])
    apply (subst segmentsFrom_stop [OF s3])
    apply (simp add: sampleCreateWallVertices_def sampleFromArrays_def)
    done
qed

lemma sample_lineSegments_3:
  "lineSegments sampleCreateWallVertices sampleFromArrays () (sampleLine key [a, b, c] w len) =
     [\<lparr>geometry = \<lparr>segmentBottomLength = \<bar>b - a\<bar>\<rparr>,
       attributes' = \<lparr>startDistance = 0, thisSegmentLength = \<bar>b - a\<bar>, totalLineLength = len,
         width' = Some \<lparr>componentDatatype = UNSIGNED_BYTE, componentsPerAttribute = 1,
                         normalize = False, value' = [w]\<rparr>\<rparr>,
       id' = key\<rparr>,
      \<lparr>geometry = \<lparr>segmentBottomLength = \<bar>c - b\<bar>\<rparr>,
       attributes' = \<lparr>startDistance = \<bar>b - a\<bar>, thisSegmentLength = \<bar>c - b\<bar>, totalLineLength = len,
         width' = Some \<lparr>componentDatatype = UNSIGNED_BYTE, componentsPerAttribute = 1,
                         normalize = False, value' = [w]\<rparr>\<rparr>,
       id' = key\<rparr>]"
proof -
  let ?wv = "sampleCreateWallVertices \<lparr>positions = [a, b, c], width = w, lengthOnEllipsoid = len\<rparr> ()"
  have V: "length (rightFacingNormals ?wv) = 9" by (simp add: sampleCreateWallVertices_def)
  have s0: "0 + 3 < length (rightFacingNormals ?wv)" using V by simp
  have s3: "0 + 3 + 3 < length (rightFacingNormals ?wv)" using V by simp
  have s6: "\<not> 0 + 3 + 3 + 3 < length (rightFacingNormals ?wv)" using V by simp
  show ?thesis
    unfolding lineSegments_def sampleLine_def
    apply (simp only: GeometryInstance.simps GroundPolylineGeometry.simps)
    apply (subst segmentsFrom_step [OF s0])
    apply (subst segmentsFrom_step [OF s3])
    apply (subst segmentsFrom_stop [OF s6])
    apply (simp add: sampleCreateWallVertices_def sampleFromArrays_def)
    done
qed

subsection \<open>Distances along one line\<close>

text \<open>
  What the loop of \<open>decompose\<close> itself fixes about the distances of one line: the first
  segment it appends has start distance 0; the start distance of segment \<open>k + 1\<close> is the
  start distance of segment \<open>k\<close> plus the length of segment \<open>k\<close>, in the loop's own
  addition; each segment's length is the bottom length of its geometry and each carries
  \<open>lengthOnEllipsoid\<close> as its total line length; the last segment ends at the running
  sum of the segment lengths. Whether the start distances increase strictly, and whether
  the running sum ends at \<open>lengthOnEllipsoid\<close>, rests on the numbers that
  \<^verbatim>\<open>GroundLineGeometry.fromArrays\<close> and \<^verbatim>\<open>GroundPolylineGeometry\<close> supply; both are
  outside the sources, and the loop neither compares nor rescales them.
\<close>

lemma decompose_distances_chain:
  "let new = drop (length segs)
       (fst (decompose createWallVertices fromArrays h geometryInstance segs idx))
   in fst (decompose createWallVertices fromArrays h geometryInstance segs idx) = segs @ new \<and>
      (new \<noteq> [] \<longrightarrow> startDistance (attributes' (new ! 0)) = 0) \<and>
      (\<forall>k. Suc k < length new \<longrightarrow>
         startDistance (attributes' (new ! Suc k)) =
           startDistance (attributes' (new ! k)) + thisSegmentLength (attributes' (new ! k))) \<and>
      (\<forall>k. k < length new \<longrightarrow>
         thisSegmentLength (attributes' (new ! k)) = segmentBottomLength (geometry (new ! k)) \<and>
         totalLineLength (attributes' (new ! k)) = lengthOnEllipsoid (geometry geometryInstance)) \<and>
      (new \<noteq> [] \<longrightarrow>
         startDistance (attributes' (last new)) + thisSegmentLength (attributes' (last new)) =
           foldl (+) 0 (map (\<lambda>s. thisSegmentLength (attributes' s)) new))"
proof -
  let ?new = "lineSegments createWallVertices fromArrays h geometryInstance"
  have 1: "fst (decompose createWallVertices fromArrays h geometryInstance segs idx) = segs @ ?new"
    by (simp add: decompose_eq)
  have 2: "?new \<noteq> [] \<longrightarrow> startDistance (attributes' (?new ! 0)) = 0"
    unfolding lineSegments_def using segmentsFrom_first_start by blast
  have 3: "\<forall>k. Suc k < length ?new \<longrightarrow>
         startDistance (attributes' (?new ! Suc k)) =
           startDistance (attributes' (?new ! k)) + thisSegmentLength (attributes' (?new ! k))"
    unfolding lineSegments_def using segmentsFrom_next_start by blast
  have 4: "\<forall>k. k < length ?new \<longrightarrow>
         thisSegmentLength (attributes' (?new ! k)) = segmentBottomLength (geometry (?new ! k)) \<and>
         totalLineLength (attributes' (?new ! k)) = lengthOnEllipsoid (geometry geometryInstance)"
    unfolding lineSegments_def using segmentsFrom_attributes by blast
  have 5: "?new \<noteq> [] \<longrightarrow>
         startDistance (attributes' (last ?new)) + thisSegmentLength (attributes' (last ?new)) =
           foldl (+) 0 (map (\<lambda>s. thisSegmentLength (attributes' s)) ?new)"
    unfolding lineSegments_def using segmentsFrom_end by blast
  from 1 2 3 4 5 show ?thesis
    unfolding Let_def drop_decompose by blast
qed

subsection \<open>The number of segments of one line\<close>

text \<open>
  C3: for a wall vertex set of \<open>verticesLength\<close> entries made of whole triples (a
  multiple of 3, at least one triple), \<open>decompose\<close> appends exactly
  \<open>(verticesLength - 3) / 3\<close> segments; segment \<open>k\<close> is built by \<open>fromArrays\<close> from
  the window starting at index \<open>3 k\<close>, so the windows start at 0, 3, 6, ...; every
  window start is below \<open>verticesLength - 3\<close>, so the final triple starts no segment.
\<close>

theorem decompose_segment_count:
  assumes "3 dvd length (rightFacingNormals (createWallVertices (geometry geometryInstance) h))"
    and "3 \<le> length (rightFacingNormals (createWallVertices (geometry geometryInstance) h))"
  shows "let wallVertices = createWallVertices (geometry geometryInstance) h;
             verticesLength = length (rightFacingNormals wallVertices);
             new = drop (length segs)
               (fst (decompose createWallVertices fromArrays h geometryInstance segs idx))
         in int (length new) = (int verticesLength - 3) div 3 \<and>
            (\<forall>k. k < length new \<longrightarrow>
               geometry (new ! k) =
                 fromArrays (3 * k) (rightFacingNormals wallVertices)
                   (bottomPositions wallVertices) (topPositions wallVertices) \<and>
               id' (new ! k) = id' geometryInstance \<and>
               3 * k + 3 < verticesLength)"
proof -
  let ?wv = "createWallVertices (geometry geometryInstance) h"
  let ?new = "lineSegments createWallVertices fromArrays h geometryInstance"
  from assms(1) obtain m where m: "length (rightFacingNormals ?wv) = 3 * m" by (auto simp: dvd_def)
  with assms(2) have m1: "1 \<le> m" by simp
  have "length ?new = m - 1 - 0"
    unfolding lineSegments_def by (rule length_segmentsFrom_triples [OF m]) simp
  then have "int (length ?new) = int m - 1" using m1 by simp
  moreover have "int (length (rightFacingNormals ?wv)) - 3 = 3 * (int m - 1)" using m by simp
  ultimately have count: "int (length ?new) = (int (length (rightFacingNormals ?wv)) - 3) div 3"
    by simp
  have windows: "\<forall>k. k < length ?new \<longrightarrow>
      geometry (?new ! k) = fromArrays (3 * k) (rightFacingNormals ?wv)
        (bottomPositions ?wv) (topPositions ?wv) \<and>
      id' (?new ! k) = id' geometryInstance \<and>
      3 * k + 3 < length (rightFacingNormals ?wv)"
  proof (intro allI impI)
    fix k assume "k < length ?new"
    then show "geometry (?new ! k) = fromArrays (3 * k) (rightFacingNormals ?wv)
        (bottomPositions ?wv) (topPositions ?wv) \<and>
      id' (?new ! k) = id' geometryInstance \<and>
      3 * k + 3 < length (rightFacingNormals ?wv)"
      unfolding lineSegments_def
      using segmentsFrom_nth [of k fromArrays ?wv "lengthOnEllipsoid (geometry geometryInstance)"
          "width (geometry geometryInstance)" "id' geometryInstance" 0 0]
      by simp
  qed
  from count windows show ?thesis
    unfolding Let_def drop_decompose by blast
qed

theorem decompose_segment_count_witness:
  "3 dvd length (rightFacingNormals
      (sampleCreateWallVertices (geometry (sampleLine ''a'' [0, 1, 3] 2 3)) ())) \<and>
   3 \<le> length (rightFacingNormals
      (sampleCreateWallVertices (geometry (sampleLine ''a'' [0, 1, 3] 2 3)) ())) \<and>
   length (rightFacingNormals
      (sampleCreateWallVertices (geometry (sampleLine ''a'' [0, 1, 3] 2 3)) ())) = 9 \<and>
   int (length (drop (length ([] :: int SegmentInstance list))
     (fst (decompose sampleCreateWallVertices sampleFromArrays ()
        (sampleLine ''a'' [0, 1, 3] 2 3) [] Map.empty)))) = (9 - 3) div 3 \<and>
   geometry (drop (length ([] :: int SegmentInstance list))
     (fst (decompose sampleCreateWallVertices sampleFromArrays ()
        (sampleLine ''a'' [0, 1, 3] 2 3) [] Map.empty)) ! 1) =
     sampleFromArrays (3 * 1)
       (rightFacingNormals (sampleCreateWallVertices (geometry (sampleLine ''a'' [0, 1, 3] 2 3)) ()))
       (bottomPositions (sampleCreateWallVertices (geometry (sampleLine ''a'' [0, 1, 3] 2 3)) ()))
       (topPositions (sampleCreateWallVertices (geometry (sampleLine ''a'' [0, 1, 3] 2 3)) ()))"
proof -
  let ?gi = "sampleLine ''a'' [0, 1, 3] 2 3"
  let ?V = "length (rightFacingNormals (sampleCreateWallVertices (geometry ?gi) ()))"
  have V: "?V = 9" by (simp add: sampleCreateWallVertices_def sampleLine_def)
  have h1: "3 dvd ?V" and h2: "3 \<le> ?V" unfolding V by simp_all
  have len: "1 < length (drop (length ([] :: int SegmentInstance list))
     (fst (decompose sampleCreateWallVertices sampleFromArrays () ?gi [] Map.empty)))"
    unfolding drop_decompose sample_lineSegments_3 by simp
  from decompose_segment_count [where createWallVertices = sampleCreateWallVertices
      and geometryInstance = ?gi and h = "()" and segs = "[]" and fromArrays = sampleFromArrays
      and idx = Map.empty, OF h1 h2, unfolded Let_def] len V h1 h2
  show ?thesis by simp
qed

text \<open>
  Outside the case of whole triples: for a vertex array of \<open>3 m + r\<close> entries with
  \<open>r\<close> equal to 1 or 2, the loop appends \<open>m\<close> segments.
\<close>

lemma decompose_segment_count_remainder:
  assumes "length (rightFacingNormals (createWallVertices (geometry geometryInstance) h)) = 3 * m + r"
    and "0 < r" and "r < 3"
  shows "length (fst (decompose createWallVertices fromArrays h geometryInstance segs idx)) =
     length segs + m"
  using length_segmentsFrom_remainder [OF assms, of 0 0 fromArrays]
  by (simp add: decompose_eq lineSegments_def)

subsection \<open>The loop of update\<close>

lemma updateLoop_segments:
  "fst (updateLoop createWallVertices fromArrays h geometryInstances segs idx) =
     segs @ concat (map (lineSegments createWallVertices fromArrays h) geometryInstances)"
  by (induction geometryInstances arbitrary: segs idx) (simp_all add: decompose_eq)

lemma updateLoop_append:
  "updateLoop createWallVertices fromArrays h (xs @ ys) segs idx =
     updateLoop createWallVertices fromArrays h ys
       (fst (updateLoop createWallVertices fromArrays h xs segs idx))
       (snd (updateLoop createWallVertices fromArrays h xs segs idx))"
  by (induction xs arbitrary: segs idx) (simp_all add: decompose_eq)

lemma updateLoop_other_id:
  "key \<notin> id' ` set geometryInstances \<Longrightarrow>
   snd (updateLoop createWallVertices fromArrays h geometryInstances segs idx) key = idx key"
  by (induction geometryInstances arbitrary: segs idx) (simp_all add: decompose_eq)

lemma firstSegmentIndex_Suc:
  "p < length geometryInstances \<Longrightarrow>
   firstSegmentIndex createWallVertices fromArrays h geometryInstances (Suc p) =
     firstSegmentIndex createWallVertices fromArrays h geometryInstances p +
     length (lineSegments createWallVertices fromArrays h (geometryInstances ! p))"
  by (simp add: firstSegmentIndex_def take_Suc_conv_app_nth)

lemma firstSegmentIndex_mono_Suc:
  "firstSegmentIndex createWallVertices fromArrays h geometryInstances p \<le>
   firstSegmentIndex createWallVertices fromArrays h geometryInstances (Suc p)"
proof (cases "p < length geometryInstances")
  case True
  then show ?thesis by (simp add: firstSegmentIndex_Suc)
next
  case False
  then show ?thesis by (simp add: firstSegmentIndex_def)
qed

lemma firstSegmentIndex_mono:
  "p \<le> q \<Longrightarrow>
   firstSegmentIndex createWallVertices fromArrays h geometryInstances p \<le>
   firstSegmentIndex createWallVertices fromArrays h geometryInstances q"
  by (rule lift_Suc_mono_le [of "firstSegmentIndex createWallVertices fromArrays h geometryInstances"])
    (rule firstSegmentIndex_mono_Suc)

lemma updateLoop_last_writer:
  assumes p: "p < length geometryInstances"
    and last: "\<forall>r. p < r \<and> r < length geometryInstances \<longrightarrow>
        id' (geometryInstances ! r) \<noteq> id' (geometryInstances ! p)"
  shows "snd (updateLoop createWallVertices fromArrays h geometryInstances segs idx)
      (id' (geometryInstances ! p)) =
     Some (int (length segs) + int (firstSegmentIndex createWallVertices fromArrays h geometryInstances p),
           int (length segs) +
             int (firstSegmentIndex createWallVertices fromArrays h geometryInstances (Suc p)) - 1)"
proof -
  let ?pre = "take p geometryInstances" and ?post = "drop (Suc p) geometryInstances"
  let ?gi = "geometryInstances ! p"
  have split: "geometryInstances = ?pre @ [?gi] @ ?post"
    using p by (simp add: id_take_nth_drop)
  have notin: "id' ?gi \<notin> id' ` set ?post"
  proof
    assume "id' ?gi \<in> id' ` set ?post"
    then obtain x where "x \<in> set ?post" "id' x = id' ?gi" by auto
    then obtain j where "j < length ?post" "?post ! j = x" by (auto simp: in_set_conv_nth)
    with p have "Suc p + j < length geometryInstances" "geometryInstances ! (Suc p + j) = x"
      by simp_all
    with last \<open>id' x = id' ?gi\<close> show False by force
  qed
  let ?s1 = "fst (updateLoop createWallVertices fromArrays h ?pre segs idx)"
  let ?i1 = "snd (updateLoop createWallVertices fromArrays h ?pre segs idx)"
  have "updateLoop createWallVertices fromArrays h geometryInstances segs idx =
      updateLoop createWallVertices fromArrays h (?pre @ [?gi] @ ?post) segs idx"
    using split by simp
  also have "\<dots> = updateLoop createWallVertices fromArrays h ?post
      (fst (decompose createWallVertices fromArrays h ?gi ?s1 ?i1))
      (snd (decompose createWallVertices fromArrays h ?gi ?s1 ?i1))"
    by (simp only: updateLoop_append) (simp add: decompose_eq)
  finally have "snd (updateLoop createWallVertices fromArrays h geometryInstances segs idx) (id' ?gi) =
      snd (decompose createWallVertices fromArrays h ?gi ?s1 ?i1) (id' ?gi)"
    using updateLoop_other_id [OF notin] by simp
  also have "\<dots> = Some (int (length ?s1),
      int (length ?s1) + int (length (lineSegments createWallVertices fromArrays h ?gi)) - 1)"
    by (simp add: decompose_eq)
  also have "length ?s1 = length segs + firstSegmentIndex createWallVertices fromArrays h geometryInstances p"
    by (simp add: updateLoop_segments firstSegmentIndex_def)
  finally show ?thesis
    using firstSegmentIndex_Suc [OF p, of createWallVertices fromArrays h] by simp
qed

lemma last_position_exists:
  assumes "key \<in> id' ` set geometryInstances"
  shows "\<exists>p. p < length geometryInstances \<and> id' (geometryInstances ! p) = key \<and>
     (\<forall>r. p < r \<and> r < length geometryInstances \<longrightarrow> id' (geometryInstances ! r) \<noteq> key)"
proof -
  from assms have "\<exists>x \<in> set geometryInstances. id' x = key" by auto
  then obtain ys x zs where s: "geometryInstances = ys @ x # zs" "id' x = key"
    "\<forall>z \<in> set zs. id' z \<noteq> key"
    using split_list_last_prop [of geometryInstances "\<lambda>x. id' x = key"] by blast
  have "\<forall>r. length ys < r \<and> r < length geometryInstances \<longrightarrow> id' (geometryInstances ! r) \<noteq> key"
  proof (intro allI impI)
    fix r assume r: "length ys < r \<and> r < length geometryInstances"
    then have "geometryInstances ! r = zs ! (r - Suc (length ys))" "r - Suc (length ys) < length zs"
      using s(1) by (auto simp: nth_append nth_Cons')
    with s(3) show "id' (geometryInstances ! r) \<noteq> key" by (metis nth_mem)
  qed
  with s(1,2) show ?thesis
    by (intro exI [of _ "length ys"]) simp
qed

lemma updateLoop_registered:
  assumes "snd (updateLoop createWallVertices fromArrays h geometryInstances [] Map.empty) key = Some (f, l)"
  shows "\<exists>p. p < length geometryInstances \<and> id' (geometryInstances ! p) = key \<and>
     (\<forall>r. p < r \<and> r < length geometryInstances \<longrightarrow> id' (geometryInstances ! r) \<noteq> key) \<and>
     f = int (firstSegmentIndex createWallVertices fromArrays h geometryInstances p) \<and>
     l = int (firstSegmentIndex createWallVertices fromArrays h geometryInstances (Suc p)) - 1"
proof -
  have "key \<in> id' ` set geometryInstances"
  proof (rule ccontr)
    assume "key \<notin> id' ` set geometryInstances"
    from updateLoop_other_id [OF this, of createWallVertices fromArrays h "[]" Map.empty] assms
    show False by simp
  qed
  from last_position_exists [OF this] obtain p where p: "p < length geometryInstances"
    "id' (geometryInstances ! p) = key"
    "\<forall>r. p < r \<and> r < length geometryInstances \<longrightarrow> id' (geometryInstances ! r) \<noteq> key"
    by blast
  from updateLoop_last_writer [of p geometryInstances createWallVertices fromArrays h "[]" Map.empty] p assms
  have "f = int (firstSegmentIndex createWallVertices fromArrays h geometryInstances p)"
    "l = int (firstSegmentIndex createWallVertices fromArrays h geometryInstances (Suc p)) - 1"
    by simp_all
  with p show ?thesis by blast
qed


subsection \<open>Lookup of a synchronizer\<close>

lemma update_new:
  "update createWallVertices fromArrays h newPrimitive primitiveUpdate
     (newGroundPolylinePrimitive (Some given)) =
   \<lparr>polylineGeometryInstances = Some given,
    primitive_p = Some (primitiveUpdate (newPrimitive
      (fst (updateLoop createWallVertices fromArrays h (geometryInstancesOf given) [] Map.empty)))),
    idsToInstanceIndices_p =
      snd (updateLoop createWallVertices fromArrays h (geometryInstancesOf given) [] Map.empty),
    attributeSynchronizerCache_p = Map.empty\<rparr>"
  by (simp add: update_def newGroundPolylinePrimitive_def split: prod.splits)

lemma getGeometryInstanceAttributes_registered:
  assumes "primitive_p this = Some p" and "batchTable_p p = Some batchTable"
    and "idsToInstanceIndices_p this key = Some (f, l)"
    and "attributeSynchronizerCache_p this key = None"
  shows "getGeometryInstanceAttributes conv this (Some key) =
     Inr (Some (InstanceAttributeSynchronizer conv f l (batchTableAttributeIndices_p p)),
          this\<lparr>attributeSynchronizerCache_p := (attributeSynchronizerCache_p this)
            (key \<mapsto> InstanceAttributeSynchronizer conv f l (batchTableAttributeIndices_p p))\<rparr>)"
  using assms by (simp add: getGeometryInstanceAttributes_def Let_def)

lemma getGeometryInstanceAttributes_absent:
  assumes "primitive_p this = Some p" and "batchTable_p p = Some batchTable"
    and "idsToInstanceIndices_p this key = None"
  shows "getGeometryInstanceAttributes conv this (Some key) = Inr (None, this)"
  using assms by (simp add: getGeometryInstanceAttributes_def)

text \<open>
  C4, amended: a line that produces zero segments is still entered in the index by
  \<open>decompose\<close>, with the inverted range \<open>[s, s - 1]\<close>, where \<open>s\<close> is the number of
  segments already in the flattened array. Once the batch table exists,
  \<open>getGeometryInstanceAttributes\<close> on that id returns a synchronizer over that range,
  not \<^verbatim>\<open>undefined\<close>; a set through it writes no slot. \<^verbatim>\<open>undefined\<close> is returned
  only for an id that has no entry in the index.
\<close>

theorem degenerate_line_is_registered:
  assumes "fst (decompose createWallVertices fromArrays h geometryInstance segs idx) = segs"
  shows "snd (decompose createWallVertices fromArrays h geometryInstance segs idx) (id' geometryInstance) =
       Some (int (length segs), int (length segs) - 1) \<and>
     (primitive_p this = Some p \<and> batchTable_p p = Some batchTable \<and>
      idsToInstanceIndices_p this =
        snd (decompose createWallVertices fromArrays h geometryInstance segs idx) \<and>
      attributeSynchronizerCache_p this (id' geometryInstance) = None \<longrightarrow>
        (\<exists>this'. getGeometryInstanceAttributes conv this (Some (id' geometryInstance)) =
           Inr (Some (InstanceAttributeSynchronizer conv (int (length segs)) (int (length segs) - 1)
                  (batchTableAttributeIndices_p p)), this'))) \<and>
     (\<forall>attributeIndex v. 1 \<le> length v \<and> length v \<le> 4 \<longrightarrow>
        createSetFunction (int (length segs)) (int (length segs) - 1) attributeIndex batchTable
          (Components v) = (None, batchTable)) \<and>
     (primitive_p this = Some p \<and> batchTable_p p = Some batchTable \<and>
      idsToInstanceIndices_p this key = None \<longrightarrow>
        getGeometryInstanceAttributes conv this (Some key) = Inr (None, this))"
proof -
  from assms have zero: "lineSegments createWallVertices fromArrays h geometryInstance = []"
    by (simp add: decompose_eq)
  then have reg: "snd (decompose createWallVertices fromArrays h geometryInstance segs idx)
      (id' geometryInstance) = Some (int (length segs), int (length segs) - 1)"
    by (simp add: decompose_eq)
  have sync: "\<exists>this'. getGeometryInstanceAttributes conv this (Some (id' geometryInstance)) =
           Inr (Some (InstanceAttributeSynchronizer conv (int (length segs)) (int (length segs) - 1)
                  (batchTableAttributeIndices_p p)), this')"
    if "primitive_p this = Some p" "batchTable_p p = Some batchTable"
      "idsToInstanceIndices_p this =
        snd (decompose createWallVertices fromArrays h geometryInstance segs idx)"
      "attributeSynchronizerCache_p this (id' geometryInstance) = None"
    using getGeometryInstanceAttributes_registered [OF that(1,2) _ that(4), of _ _ conv] reg that(3)
    by simp
  have nowrite: "createSetFunction (int (length segs)) (int (length segs) - 1) attributeIndex batchTable
          (Components v) = (None, batchTable)"
    if "1 \<le> length v \<and> length v \<le> 4" for attributeIndex v
    using that by (simp add: createSetFunction_valid setLoop_stop)
  have absent: "getGeometryInstanceAttributes conv this (Some key) = Inr (None, this)"
    if "primitive_p this = Some p \<and> batchTable_p p = Some batchTable \<and>
      idsToInstanceIndices_p this key = None"
    using that getGeometryInstanceAttributes_absent by blast
  from reg sync nowrite absent show ?thesis by blast
qed

lemma sample_degenerate_update:
  "update sampleCreateWallVertices sampleFromArrays () sampleNewPrimitive (\<lambda>p. p)
     (newGroundPolylinePrimitive (Some (Single (sampleLine ''a'' [7] 2 0)))) =
   \<lparr>polylineGeometryInstances = Some (Single (sampleLine ''a'' [7] 2 0)),
    primitive_p = Some (sampleNewPrimitive []),
    idsToInstanceIndices_p = [''a'' \<mapsto> (0, - 1)],
    attributeSynchronizerCache_p = Map.empty\<rparr>"
  by (simp add: update_new geometryInstancesOf_def decompose_eq sample_lineSegments_1)
    (simp add: sampleLine_def)

theorem degenerate_line_is_registered_witness:
  "fst (decompose sampleCreateWallVertices sampleFromArrays () (sampleLine ''a'' [7] 2 0) [] Map.empty) = [] \<and>
   snd (decompose sampleCreateWallVertices sampleFromArrays () (sampleLine ''a'' [7] 2 0) [] Map.empty) ''a'' =
     Some (0, - 1) \<and>
   (\<exists>this'. getGeometryInstanceAttributes (\<lambda>dt x. x mod 256)
       (update sampleCreateWallVertices sampleFromArrays () sampleNewPrimitive (\<lambda>p. p)
          (newGroundPolylinePrimitive (Some (Single (sampleLine ''a'' [7] 2 0)))))
       (Some ''a'') =
      Inr (Some (InstanceAttributeSynchronizer (\<lambda>dt x. x mod 256) 0 (- 1) [''color'' \<mapsto> 0]), this')) \<and>
   createSetFunction 0 (- 1) 0
       \<lparr>attributes = [\<lparr>componentDatatype = UNSIGNED_BYTE, componentsPerAttribute = 4\<rparr>],
        batchValues = (\<lambda>slot. Cartesian4 1 1 1 1)\<rparr> (Components [255, 0, 0, 255 :: int]) =
     (None, \<lparr>attributes = [\<lparr>componentDatatype = UNSIGNED_BYTE, componentsPerAttribute = 4\<rparr>],
             batchValues = (\<lambda>slot. Cartesian4 1 1 1 1)\<rparr>) \<and>
   getGeometryInstanceAttributes (\<lambda>dt x. x mod 256)
       (update sampleCreateWallVertices sampleFromArrays () sampleNewPrimitive (\<lambda>p. p)
          (newGroundPolylinePrimitive (Some (Single (sampleLine ''a'' [7] 2 0)))))
       (Some ''zz'') =
     Inr (None, update sampleCreateWallVertices sampleFromArrays () sampleNewPrimitive (\<lambda>p. p)
          (newGroundPolylinePrimitive (Some (Single (sampleLine ''a'' [7] 2 0)))))"
proof -
  let ?gi = "sampleLine ''a'' [7] 2 0"
  let ?prim = "update sampleCreateWallVertices sampleFromArrays () sampleNewPrimitive (\<lambda>p. p)
          (newGroundPolylinePrimitive (Some (Single ?gi)))"
  let ?bt = "\<lparr>attributes = [\<lparr>componentDatatype = UNSIGNED_BYTE, componentsPerAttribute = 4\<rparr>],
        batchValues = (\<lambda>slot. Cartesian4 1 1 1 (1 :: int))\<rparr>"
  have zero: "fst (decompose sampleCreateWallVertices sampleFromArrays () ?gi [] Map.empty) = []"
    by (simp add: decompose_eq sample_lineSegments_1)
  have idk: "id' ?gi = ''a''" by (simp add: sampleLine_def)
  have h: "primitive_p ?prim = Some (sampleNewPrimitive [])"
    "batchTable_p (sampleNewPrimitive []) = Some ?bt"
    "idsToInstanceIndices_p ?prim =
       snd (decompose sampleCreateWallVertices sampleFromArrays () ?gi [] Map.empty)"
    "attributeSynchronizerCache_p ?prim (id' ?gi) = None"
    "idsToInstanceIndices_p ?prim ''zz'' = None"
    "batchTableAttributeIndices_p (sampleNewPrimitive []) = [''color'' \<mapsto> 0]"
    unfolding sample_degenerate_update
    by (simp_all add: sampleNewPrimitive_def decompose_eq sample_lineSegments_1 idk)
  from degenerate_line_is_registered [where createWallVertices = sampleCreateWallVertices
      and fromArrays = sampleFromArrays and h = "()" and geometryInstance = ?gi and segs = "[]"
      and idx = Map.empty and this = ?prim and p = "sampleNewPrimitive []" and batchTable = ?bt
      and conv = "\<lambda>dt x. x mod 256" and key = "''zz''", OF zero] h zero
  show ?thesis
    by (simp add: idk)
qed

text \<open>
  C4, as stated, fails: a line of a single point has one vertex, hence no segment; after
  \<open>update\<close> its id is in the index with the range \<open>[0, -1]\<close> and
  \<open>getGeometryInstanceAttributes\<close> returns a synchronizer for it.
\<close>

theorem degenerate_line_absent_counterexample:
  "fst (updateLoop sampleCreateWallVertices sampleFromArrays () [sampleLine ''a'' [7] 2 0] [] Map.empty) = [] \<and>
   idsToInstanceIndices_p
     (update sampleCreateWallVertices sampleFromArrays () sampleNewPrimitive (\<lambda>p. p)
        (newGroundPolylinePrimitive (Some (Single (sampleLine ''a'' [7] 2 0))))) ''a'' = Some (0, - 1) \<and>
   (\<exists>sync this'. getGeometryInstanceAttributes (\<lambda>dt x. x mod 256)
       (update sampleCreateWallVertices sampleFromArrays () sampleNewPrimitive (\<lambda>p. p)
          (newGroundPolylinePrimitive (Some (Single (sampleLine ''a'' [7] 2 0)))))
       (Some ''a'') = Inr (Some sync, this'))"
  unfolding sample_degenerate_update
  by (simp add: decompose_eq sample_lineSegments_1 getGeometryInstanceAttributes_def
      sampleNewPrimitive_def Let_def)

subsection \<open>Ranges in the index\<close>

lemma firstSegmentIndex_le_total:
  "firstSegmentIndex createWallVertices fromArrays h geometryInstances q \<le>
     length (fst (updateLoop createWallVertices fromArrays h geometryInstances [] idx))"
proof -
  have total: "length (fst (updateLoop createWallVertices fromArrays h geometryInstances [] idx)) =
      firstSegmentIndex createWallVertices fromArrays h geometryInstances (length geometryInstances)"
    by (simp add: firstSegmentIndex_def updateLoop_segments)
  show ?thesis
  proof (cases "q \<le> length geometryInstances")
    case True
    from firstSegmentIndex_mono [OF True, of createWallVertices fromArrays h geometryInstances]
    show ?thesis by (simp only: total)
  next
    case False
    then show ?thesis by (simp add: firstSegmentIndex_def updateLoop_segments)
  qed
qed

lemma decompose_alone:
  "fst (decompose createWallVertices fromArrays h geometryInstance [] idx) =
     lineSegments createWallVertices fromArrays h geometryInstance"
  by (simp add: decompose_eq)



text \<open>
  C5, amended: after the decomposition pass of \<open>update\<close> (which starts from an empty
  array and an empty index), every stored range \<open>[first, last]\<close> lies inside the
  flattened array and satisfies \<open>first \<le> last + 1\<close>; \<open>last - first + 1\<close> is the number
  of segments of a line of the batch carrying that id, so \<open>first \<le> last\<close> holds exactly
  when that line produced a segment. For two distinct registered ids the ranges are
  disjoint: one ends before the other begins.
\<close>

theorem registered_ranges_disjoint:
  assumes "snd (updateLoop createWallVertices fromArrays h geometryInstances [] Map.empty) key = Some (f, l)"
  shows "0 \<le> f \<and> f \<le> l + 1 \<and>
     l < int (length (fst (updateLoop createWallVertices fromArrays h geometryInstances [] Map.empty))) \<and>
     (\<exists>p. p < length geometryInstances \<and> id' (geometryInstances ! p) = key \<and>
        l - f + 1 = int (length (fst (decompose createWallVertices fromArrays h
          (geometryInstances ! p) [] Map.empty)))) \<and>
     (\<forall>key' f' l'. key' \<noteq> key \<and>
        snd (updateLoop createWallVertices fromArrays h geometryInstances [] Map.empty) key' = Some (f', l') \<longrightarrow>
        l < f' \<or> l' < f)"
proof -
  let ?off = "firstSegmentIndex createWallVertices fromArrays h geometryInstances"
  from updateLoop_registered [OF assms] obtain p where p: "p < length geometryInstances"
    "id' (geometryInstances ! p) = key" "f = int (?off p)" "l = int (?off (Suc p)) - 1"
    by blast
  have a: "0 \<le> f" using p(3) by simp
  have b: "f \<le> l + 1"
    using p(3,4) firstSegmentIndex_mono_Suc [of createWallVertices fromArrays h geometryInstances p]
    by simp
  have c: "l < int (length (fst (updateLoop createWallVertices fromArrays h geometryInstances [] Map.empty)))"
    using p(4) firstSegmentIndex_le_total [of createWallVertices fromArrays h geometryInstances "Suc p" Map.empty]
    by simp
  have d: "l - f + 1 = int (length (fst (decompose createWallVertices fromArrays h
          (geometryInstances ! p) [] Map.empty)))"
    using p(3,4) firstSegmentIndex_Suc [OF p(1), of createWallVertices fromArrays h]
    by (simp add: decompose_alone)
  have e: "l < f' \<or> l' < f"
    if "key' \<noteq> key \<and>
        snd (updateLoop createWallVertices fromArrays h geometryInstances [] Map.empty) key' = Some (f', l')"
    for key' f' l'
  proof -
    from that updateLoop_registered [of createWallVertices fromArrays h geometryInstances key' f' l']
    obtain p' where p': "p' < length geometryInstances"
      "id' (geometryInstances ! p') = key'" "f' = int (?off p')" "l' = int (?off (Suc p')) - 1"
      by blast
    from that p(2) p'(2) have "p \<noteq> p'" by auto
    then consider "Suc p \<le> p'" | "Suc p' \<le> p" by linarith
    then show ?thesis
    proof cases
      case 1
      from firstSegmentIndex_mono [OF 1, of createWallVertices fromArrays h geometryInstances]
      show ?thesis using p(4) p'(3) by simp
    next
      case 2
      from firstSegmentIndex_mono [OF 2, of createWallVertices fromArrays h geometryInstances]
      show ?thesis using p(3) p'(4) by simp
    qed
  qed
  from a b c d e p(1,2) show ?thesis by blast
qed

lemma id_sampleLine: "id' (sampleLine key path w len) = key"
  by (simp add: sampleLine_def)

lemma sample_batch_abc:
  "updateLoop sampleCreateWallVertices sampleFromArrays ()
     [sampleLine ''a'' [0, 1, 3] 2 3, sampleLine ''b'' [7] 2 0, sampleLine ''c'' [0, 1] 2 1]
     [] Map.empty =
   (lineSegments sampleCreateWallVertices sampleFromArrays () (sampleLine ''a'' [0, 1, 3] 2 3) @
    lineSegments sampleCreateWallVertices sampleFromArrays () (sampleLine ''c'' [0, 1] 2 1),
    [''a'' \<mapsto> (0, 1), ''b'' \<mapsto> (2, 1), ''c'' \<mapsto> (2, 2)])"
proof -
  have la: "length (lineSegments sampleCreateWallVertices sampleFromArrays ()
      (sampleLine ''a'' [0, 1, 3] 2 3)) = 2"
    by (simp add: sample_lineSegments_3)
  have lb: "lineSegments sampleCreateWallVertices sampleFromArrays () (sampleLine ''b'' [7] 2 0) = []"
    by (rule sample_lineSegments_1)
  have lc: "length (lineSegments sampleCreateWallVertices sampleFromArrays ()
      (sampleLine ''c'' [0, 1] 2 1)) = 1"
    by (simp add: sample_lineSegments_2)
  show ?thesis
    by (simp add: decompose_eq id_sampleLine la lb lc)
qed

theorem registered_ranges_disjoint_witness:
  "snd (updateLoop sampleCreateWallVertices sampleFromArrays ()
     [sampleLine ''a'' [0, 1, 3] 2 3, sampleLine ''b'' [7] 2 0, sampleLine ''c'' [0, 1] 2 1]
     [] Map.empty) ''a'' = Some (0, 1) \<and>
   snd (updateLoop sampleCreateWallVertices sampleFromArrays ()
     [sampleLine ''a'' [0, 1, 3] 2 3, sampleLine ''b'' [7] 2 0, sampleLine ''c'' [0, 1] 2 1]
     [] Map.empty) ''c'' = Some (2, 2) \<and>
   (1 :: int) < int (length (fst (updateLoop sampleCreateWallVertices sampleFromArrays ()
     [sampleLine ''a'' [0, 1, 3] 2 3, sampleLine ''b'' [7] 2 0, sampleLine ''c'' [0, 1] 2 1]
     [] Map.empty))) \<and>
   ((1 :: int) < 2 \<or> (2 :: int) < 0)"
proof -
  let ?batch = "[sampleLine ''a'' [0, 1, 3] 2 3, sampleLine ''b'' [7] 2 0, sampleLine ''c'' [0, 1] 2 1]"
  have a: "snd (updateLoop sampleCreateWallVertices sampleFromArrays () ?batch [] Map.empty) ''a'' =
      Some (0, 1)"
    and c: "''c'' \<noteq> ''a'' \<and>
      snd (updateLoop sampleCreateWallVertices sampleFromArrays () ?batch [] Map.empty) ''c'' =
      Some (2, 2)"
    unfolding sample_batch_abc by simp_all
  note r = registered_ranges_disjoint [OF a]
  from r have "1 < int (length (fst (updateLoop sampleCreateWallVertices sampleFromArrays ()
      ?batch [] Map.empty)))"
    by (elim conjE)
  moreover from r have "\<forall>key' f' l'. key' \<noteq> ''a'' \<and>
        snd (updateLoop sampleCreateWallVertices sampleFromArrays () ?batch [] Map.empty) key' =
          Some (f', l') \<longrightarrow> 1 < f' \<or> l' < 0"
    by (elim conjE)
  then have "(1 :: int) < 2 \<or> (2 :: int) < 0"
    using c by (elim allE [of _ "''c''"] allE [of _ 2]) (rule mp)
  ultimately show ?thesis using a c by (intro conjI) simp_all
qed

text \<open>
  C5, as stated, fails: a line without a segment, decomposed after two segments, is stored
  with the range \<open>[2, 1]\<close>, and \<open>first \<le> last\<close> is false for it.
\<close>

theorem empty_range_registered_counterexample:
  "snd (updateLoop sampleCreateWallVertices sampleFromArrays ()
     [sampleLine ''a'' [0, 1, 3] 2 3, sampleLine ''b'' [7] 2 0] [] Map.empty) ''b'' = Some (2, 1) \<and>
   \<not> (2 :: int) \<le> 1"
  by (simp add: decompose_eq id_sampleLine sample_lineSegments_1 sample_lineSegments_3)

subsection \<open>No line is skipped\<close>

text \<open>
  C9, amended: \<open>decompose\<close> checks neither the path nor the width, and the pass of
  \<open>update\<close> skips no line and signals no error for a single line: for every batch the
  flattened array is the concatenation, in batch order, of the segments each line gives
  when decomposed on its own, whatever its path and width, and the id of every line of
  the batch is registered.
\<close>

theorem update_decomposes_every_line:
  "fst (updateLoop createWallVertices fromArrays h geometryInstances [] Map.empty) =
     concat (map (\<lambda>geometryInstance.
       fst (decompose createWallVertices fromArrays h geometryInstance [] Map.empty)) geometryInstances) \<and>
   (\<forall>geometryInstance \<in> set geometryInstances.
      id' geometryInstance \<in>
        dom (snd (updateLoop createWallVertices fromArrays h geometryInstances [] Map.empty)))"
proof -
  have segs: "fst (updateLoop createWallVertices fromArrays h geometryInstances [] Map.empty) =
     concat (map (\<lambda>geometryInstance.
       fst (decompose createWallVertices fromArrays h geometryInstance [] Map.empty)) geometryInstances)"
    by (simp add: updateLoop_segments decompose_alone)
  have reg: "id' geometryInstance \<in>
        dom (snd (updateLoop createWallVertices fromArrays h geometryInstances [] Map.empty))"
    if "geometryInstance \<in> set geometryInstances" for geometryInstance
  proof -
    from that have "id' geometryInstance \<in> id' ` set geometryInstances" by simp
    from last_position_exists [OF this] obtain p where p: "p < length geometryInstances"
      "id' (geometryInstances ! p) = id' geometryInstance"
      "\<forall>r. p < r \<and> r < length geometryInstances \<longrightarrow>
         id' (geometryInstances ! r) \<noteq> id' geometryInstance"
      by blast
    from p(3) have "\<forall>r. p < r \<and> r < length geometryInstances \<longrightarrow>
         id' (geometryInstances ! r) \<noteq> id' (geometryInstances ! p)"
      by (simp add: p(2))
    from updateLoop_last_writer [OF p(1) this, of createWallVertices fromArrays h "[]" Map.empty]
    show ?thesis by (auto simp: p(2))
  qed
  from segs reg show ?thesis by blast
qed

lemma sample_batch_invalid:
  "updateLoop sampleCreateWallVertices sampleFromArrays ()
     [sampleLine ''a'' [0, 1] (- 1) 1, sampleLine ''b'' [0, 1] 2 1] [] Map.empty =
   (lineSegments sampleCreateWallVertices sampleFromArrays () (sampleLine ''a'' [0, 1] (- 1) 1) @
    lineSegments sampleCreateWallVertices sampleFromArrays () (sampleLine ''b'' [0, 1] 2 1),
    [''a'' \<mapsto> (0, 0), ''b'' \<mapsto> (1, 1)])"
proof -
  have l: "length (lineSegments sampleCreateWallVertices sampleFromArrays ()
      (sampleLine key [0, 1] w 1)) = 1" for key w
    by (simp add: sample_lineSegments_2)
  show ?thesis
    by (simp add: decompose_eq id_sampleLine l)
qed

theorem update_decomposes_every_line_witness:
  "fst (updateLoop sampleCreateWallVertices sampleFromArrays ()
     [sampleLine ''a'' [0, 1] (- 1) 1, sampleLine ''b'' [0, 1] 2 1] [] Map.empty) =
     fst (decompose sampleCreateWallVertices sampleFromArrays ()
       (sampleLine ''a'' [0, 1] (- 1) 1) [] Map.empty) @
     fst (decompose sampleCreateWallVertices sampleFromArrays ()
       (sampleLine ''b'' [0, 1] 2 1) [] Map.empty) \<and>
   ''a'' \<in> dom (snd (updateLoop sampleCreateWallVertices sampleFromArrays ()
     [sampleLine ''a'' [0, 1] (- 1) 1, sampleLine ''b'' [0, 1] 2 1] [] Map.empty)) \<and>
   ''b'' \<in> dom (snd (updateLoop sampleCreateWallVertices sampleFromArrays ()
     [sampleLine ''a'' [0, 1] (- 1) 1, sampleLine ''b'' [0, 1] 2 1] [] Map.empty))"
proof -
  let ?a = "sampleLine ''a'' [0, 1] (- 1) 1" and ?b = "sampleLine ''b'' [0, 1] 2 1"
  note r = update_decomposes_every_line [of sampleCreateWallVertices sampleFromArrays "()" "[?a, ?b]"]
  from r have "fst (updateLoop sampleCreateWallVertices sampleFromArrays () [?a, ?b] [] Map.empty) =
     fst (decompose sampleCreateWallVertices sampleFromArrays () ?a [] Map.empty) @
     fst (decompose sampleCreateWallVertices sampleFromArrays () ?b [] Map.empty)"
    by simp
  moreover from r have "id' ?a \<in> dom (snd (updateLoop sampleCreateWallVertices sampleFromArrays ()
      [?a, ?b] [] Map.empty))"
    and "id' ?b \<in> dom (snd (updateLoop sampleCreateWallVertices sampleFromArrays ()
      [?a, ?b] [] Map.empty))"
    by simp_all
  ultimately show ?thesis by (simp only: id_sampleLine)
qed

text \<open>
  C9, as stated, fails: a line of width \<open>-1\<close> is decomposed like its sibling; its
  segment is in the flattened array and its id is in the index.
\<close>

theorem invalid_line_not_skipped_counterexample:
  "width (geometry (sampleLine ''a'' [0, 1] (- 1) 1)) \<le> 0 \<and>
   map id' (fst (updateLoop sampleCreateWallVertices sampleFromArrays ()
     [sampleLine ''a'' [0, 1] (- 1) 1, sampleLine ''b'' [0, 1] 2 1] [] Map.empty)) = [''a'', ''b''] \<and>
   snd (updateLoop sampleCreateWallVertices sampleFromArrays ()
     [sampleLine ''a'' [0, 1] (- 1) 1, sampleLine ''b'' [0, 1] 2 1] [] Map.empty) ''a'' = Some (0, 0)"
  unfolding sample_batch_invalid
  by (simp add: sample_lineSegments_2) (simp add: sampleLine_def)

subsection \<open>Two lines with the same id\<close>



end
